theory Spec2Isabelle
  imports Main
begin

section \<open>Strings and JavaScript values\<close>

text \<open>
  A JavaScript string is modelled as a \<^typ>\<open>string\<close>; a \<^typ>\<open>char\<close> stands for a code
  unit in the range U+0000 to U+00FF.  The only characters the program treats specially
  lie in that range: the white space that \<^verbatim>\<open>trim\<close> strips, the line feed, and the four
  characters the HTML serialiser escapes.
\<close>

definition LF :: char where
  "LF = CHR 0x0A"

definition NBSP :: char where
  "NBSP = CHR 0xA0"

text \<open>White space and line terminators of ECMAScript, as far as they are below U+0100.\<close>

definition isWhiteSpace :: "char \<Rightarrow> bool" where
  "isWhiteSpace c \<longleftrightarrow>
     c = CHR 0x09 \<or> c = CHR 0x0A \<or> c = CHR 0x0B \<or> c = CHR 0x0C \<or> c = CHR 0x0D \<or>
     c = CHR 0x20 \<or> c = CHR 0xA0"

text \<open>\<^verbatim>\<open>String.prototype.trim\<close>: white space is removed from both ends.\<close>

definition trim :: "string \<Rightarrow> string" where
  "trim s = rev (dropWhile isWhiteSpace (rev (dropWhile isWhiteSpace s)))"

text \<open>
  What \<^verbatim>\<open>response.json()\<close> can resolve to.  A number is carried as the text that
  \<^verbatim>\<open>ToString\<close> gives for it, the only thing the program ever does with one.  A property
  that is read but absent is \<^verbatim>\<open>undefined\<close>, modelled as \<^term>\<open>None\<close> of
  \<^typ>\<open>'a option\<close>.
\<close>

datatype json =
    JNull
  | JBool bool
  | JNum string
  | JStr string
  | JArr "json list"
  | JObj "(string \<times> json) list"

type_synonym jsval = "json option"

datatype js_error =
    TypeError
  | SyntaxError
  | NetworkError
  | Error string

text \<open>
  Reading the property \<^verbatim>\<open>answer\<close> or \<^verbatim>\<open>error\<close> of a parsed body: a
  \<^verbatim>\<open>TypeError\<close> on \<^verbatim>\<open>null\<close>, the member of an object (the last one when a key is
  repeated, as \<^verbatim>\<open>JSON.parse\<close> keeps it), and \<^verbatim>\<open>undefined\<close> on every other value.
\<close>

fun getProp :: "json \<Rightarrow> string \<Rightarrow> js_error + jsval" where
  "getProp JNull k = Inl TypeError"
| "getProp (JObj kvs) k = Inr (map_of (rev kvs) k)"
| "getProp v k = Inr None"

definition join :: "string \<Rightarrow> string list \<Rightarrow> string" where
  "join sep xs = (case xs of [] \<Rightarrow> [] | y # ys \<Rightarrow> y @ concat (map (\<lambda>z. sep @ z) ys))"

text \<open>The results of a list of conversions, up to the first one that throws.\<close>

fun collect :: "(js_error + 'a) list \<Rightarrow> js_error + 'a list" where
  "collect [] = Inr []"
| "collect (Inl e # rs) = Inl e"
| "collect (Inr x # rs) = (case collect rs of Inl e \<Rightarrow> Inl e | Inr xs \<Rightarrow> Inr (x # xs))"

text \<open>
  \<^verbatim>\<open>ToString\<close> on a value that came out of \<^verbatim>\<open>JSON.parse\<close>.  An array is joined
  with commas, \<^verbatim>\<open>null\<close> elements giving the empty text.  An object is converted
  through its \<^verbatim>\<open>toString\<close> and \<^verbatim>\<open>valueOf\<close>: the inherited ones give
  \<^verbatim>\<open>[object Object]\<close>; an own member \<^verbatim>\<open>toString\<close>, which is never a function after
  \<^verbatim>\<open>JSON.parse\<close>, hides the inherited one, \<^verbatim>\<open>valueOf\<close> then gives no primitive
  value, and the conversion throws a \<^verbatim>\<open>TypeError\<close>.
\<close>

fun toString :: "json \<Rightarrow> js_error + string" where
  "toString JNull = Inr ''null''"
| "toString (JBool b) = Inr (if b then ''true'' else ''false'')"
| "toString (JNum t) = Inr t"
| "toString (JStr s) = Inr s"
| "toString (JArr xs) =
     (case collect (map (\<lambda>x. case x of JNull \<Rightarrow> Inr [] | _ \<Rightarrow> toString x) xs) of
        Inl e \<Rightarrow> Inl e
      | Inr ts \<Rightarrow> Inr (join '','' ts))"
| "toString (JObj kvs) =
     (if ''toString'' \<in> set (map fst kvs) then Inl TypeError else Inr ''[object Object]'')"

text \<open>\<^verbatim>\<open>ToBoolean\<close>, for the \<^verbatim>\<open>||\<close> of \<^verbatim>\<open>fetchAnswer\<close>.\<close>

fun truthy :: "jsval \<Rightarrow> bool" where
  "truthy None = False"
| "truthy (Some JNull) = False"
| "truthy (Some (JBool b)) = b"
| "truthy (Some (JNum t)) = (t \<noteq> ''0'')"
| "truthy (Some (JStr s)) = (s \<noteq> [])"
| "truthy (Some v) = True"

text \<open>
  The conversion that assigning to \<^verbatim>\<open>textContent\<close> applies (a nullable string
  attribute): \<^verbatim>\<open>undefined\<close> and \<^verbatim>\<open>null\<close> both give the empty text.
\<close>

fun textOf :: "jsval \<Rightarrow> js_error + string" where
  "textOf None = Inr []"
| "textOf (Some JNull) = Inr []"
| "textOf (Some v) = toString v"

section \<open>The view\<close>

text \<open>
  An element created by the program.  \<open>ref\<close> is the identity of the object (two
  elements with equal markup are still two elements).  The fixed markup of the two
  templates is a constructor; the holes of the message template are its arguments.
\<close>

datatype inner =
    MessageHtml string string
  | TypingHtml
  | TextContent string

record element =
  ref :: nat
  className :: string
  el_id :: string
  inner :: inner

datatype height = Initial | Auto | Px nat

datatype callback =
    RemoveElement nat
  | ScrollSettle "nat option"

record entry =
  question :: string
  answer :: jsval
  timestamp :: nat

record request =
  req_url :: string
  req_method :: string
  req_content_type :: string
  req_body :: json

text \<open>
  The state the controller works on.  The handles of \<^verbatim>\<open>DOMElements\<close> are bound once
  and are taken as present, but for the welcome panel, which the code itself guards
  (\<open>None\<close> when the page has none).  \<open>chatMain\<close> is what
  \<^verbatim>\<open>document.querySelector(".chat-main")\<close> returns at the moment it is called.  The
  document is searched by id only among the children of \<^verbatim>\<open>chatMessages\<close>, the one
  place the program puts elements.  \<open>pending\<close> holds the questions of the activations
  of \<^verbatim>\<open>handleFormSubmit\<close> that are suspended at their \<^verbatim>\<open>await\<close>.
\<close>

record ui =
  welcomeScreen :: "string option"
  input_value :: string
  input_height :: height
  input_disabled :: bool
  btn_disabled :: bool
  btnIcon_display :: string
  spinner_display :: string
  chatMessages :: "element list"
  chatMain :: "nat option"
  scrollTop :: "nat \<Rightarrow> int"
  scrollHeight :: "nat \<Rightarrow> int"
  next_ref :: nat
  timers :: "(nat \<times> callback) list"
  now :: nat
  conversationHistory :: "entry list"
  console :: "js_error list"
  uncaught :: "js_error list"
  sent :: "request list"
  pending :: "string list"

section \<open>Completions\<close>

text \<open>
  A statement either completes normally or throws; the state it leaves behind is kept
  in both cases.
\<close>

datatype completion = Normal | Throw js_error

type_synonym comp = "ui \<Rightarrow> completion \<times> ui"

definition lift :: "(ui \<Rightarrow> ui) \<Rightarrow> comp" where
  "lift f s = (Normal, f s)"

text \<open>
  \<^verbatim>\<open>try { body } catch (error) { handler } finally { fin }\<close>: the handler runs when
  the body throws, \<open>fin\<close> runs in every case, and a throw of \<open>fin\<close> replaces the
  completion of what came before.
\<close>

definition tryCatchFinally :: "comp \<Rightarrow> (js_error \<Rightarrow> comp) \<Rightarrow> comp \<Rightarrow> comp" where
  "tryCatchFinally b h fin s =
     (let (c1, s1) = b s;
          (c2, s2) = (case c1 of Normal \<Rightarrow> (Normal, s1) | Throw e \<Rightarrow> h e s1);
          (c3, s3) = fin s2
      in case c3 of Normal \<Rightarrow> (c2, s3) | Throw e \<Rightarrow> (Throw e, s3))"

section \<open>ChatMessage\<close>

record chat_message =
  content :: jsval
  sender :: string
  createdAt :: nat

text \<open>\<^verbatim>\<open>new ChatMessage(content, sender)\<close>; the constructor reads the clock.\<close>

definition ChatMessage :: "jsval \<Rightarrow> string \<Rightarrow> ui \<Rightarrow> chat_message" where
  "ChatMessage c sd s = \<lparr>content = c, sender = sd, createdAt = now s\<rparr>"

definition getSenderLabel :: "chat_message \<Rightarrow> string" where
  "getSenderLabel m = (if sender m = ''user'' then ''You'' else ''AI CHAT BOT'')"

text \<open>
  Reading \<^verbatim>\<open>innerHTML\<close> of an element whose only child is a text node serialises the
  text: the ampersand, the no-break space and the two angle brackets are replaced by
  their character references.
\<close>

definition escapeChar :: "char \<Rightarrow> string" where
  "escapeChar c =
     (if c = CHR ''&'' then ''&amp;''
      else if c = NBSP then ''&nbsp;''
      else if c = CHR ''<'' then ''&lt;''
      else if c = CHR ''>'' then ''&gt;''
      else [c])"

definition serializeText :: "string \<Rightarrow> string" where
  "serializeText t = concat (map escapeChar t)"

text \<open>\<^verbatim>\<open>.replace(/\n/g, "<br>")\<close>\<close>

definition replaceNewlines :: "string \<Rightarrow> string" where
  "replaceNewlines t = concat (map (\<lambda>c. if c = LF then ''<br>'' else [c]) t)"

definition escapeHtml :: "chat_message \<Rightarrow> js_error + string" where
  "escapeHtml m =
     (case textOf (content m) of
        Inl e \<Rightarrow> Inl e
      | Inr t \<Rightarrow> Inr (replaceNewlines (serializeText t)))"

text \<open>The template is filled in before the element is handed out: a throw of
  \<^verbatim>\<open>escapeHtml\<close> leaves no element behind.\<close>

definition getElement :: "chat_message \<Rightarrow> nat \<Rightarrow> js_error + element" where
  "getElement m r =
     (case escapeHtml m of
        Inl e \<Rightarrow> Inl e
      | Inr h \<Rightarrow>
          Inr \<lparr>ref = r, className = ''message message-'' @ sender m, el_id = [],
               inner = MessageHtml (getSenderLabel m) h\<rparr>)"

section \<open>TypingIndicator\<close>

definition TypingIndicator_create :: "nat \<Rightarrow> element" where
  "TypingIndicator_create r =
     \<lparr>ref = r, className = ''message message-ai'', el_id = ''typingIndicator'',
      inner = TypingHtml\<rparr>"

definition getElementById :: "string \<Rightarrow> ui \<Rightarrow> element option" where
  "getElementById i s = find (\<lambda>e. el_id e = i) (chatMessages s)"

definition TypingIndicator_remove :: "ui \<Rightarrow> ui" where
  "TypingIndicator_remove s =
     (case getElementById ''typingIndicator'' s of
        None \<Rightarrow> s
      | Some typingIndicator \<Rightarrow>
          s\<lparr>chatMessages := remove1 typingIndicator (chatMessages s)\<rparr>)"

section \<open>ErrorMessage\<close>

record error_message =
  message :: string
  duration :: nat

definition ErrorMessage :: "string \<Rightarrow> error_message" where
  "ErrorMessage msg = \<lparr>message = msg, duration = 5000\<rparr>"

definition ErrorMessage_create :: "error_message \<Rightarrow> nat \<Rightarrow> element" where
  "ErrorMessage_create em r =
     \<lparr>ref = r, className = ''error-message'', el_id = [], inner = TextContent (message em)\<rparr>"

text \<open>
  \<^verbatim>\<open>display(container)\<close>; the container is always \<^verbatim>\<open>chatMessages\<close>.  The timer holds
  the element it created.
\<close>

definition ErrorMessage_display :: "error_message \<Rightarrow> ui \<Rightarrow> ui" where
  "ErrorMessage_display em s =
     (let errorElement = ErrorMessage_create em (next_ref s)
      in s\<lparr>chatMessages := chatMessages s @ [errorElement],
            next_ref := Suc (next_ref s),
            timers := timers s @ [(now s + duration em, RemoveElement (ref errorElement))]\<rparr>)"

text \<open>
  What a timer does when it fires.  \<^verbatim>\<open>errorElement.remove()\<close> detaches the element if
  it is attached.  The scroll callback writes to the element that \<^verbatim>\<open>scrollToBottom\<close>
  found when it set the timer; on \<^verbatim>\<open>null\<close> the write throws.
\<close>

fun run_callback :: "callback \<Rightarrow> comp" where
  "run_callback (RemoveElement r) s =
     (Normal, s\<lparr>chatMessages := filter (\<lambda>e. ref e \<noteq> r) (chatMessages s)\<rparr>)"
| "run_callback (ScrollSettle None) s = (Throw TypeError, s)"
| "run_callback (ScrollSettle (Some c)) s =
     (Normal, s\<lparr>scrollTop := (scrollTop s)(c := scrollHeight s c)\<rparr>)"

section \<open>ChatUI\<close>

definition scrollToBottom :: "ui \<Rightarrow> ui" where
  "scrollToBottom s = s\<lparr>timers := timers s @ [(now s + 100, ScrollSettle (chatMain s))]\<rparr>"

definition addMessage :: "chat_message \<Rightarrow> comp" where
  "addMessage m s =
     (case getElement m (next_ref s) of
        Inl e \<Rightarrow> (Throw e, s)
      | Inr el \<Rightarrow>
          (Normal,
           scrollToBottom
             (s\<lparr>chatMessages := chatMessages s @ [el], next_ref := Suc (next_ref s)\<rparr>)))"

definition clearInput :: "ui \<Rightarrow> ui" where
  "clearInput s = s\<lparr>input_value := [], input_height := Auto\<rparr>"

definition setLoadingState :: "bool \<Rightarrow> ui \<Rightarrow> ui" where
  "setLoadingState isLoading s =
     s\<lparr>btn_disabled := isLoading,
       input_disabled := isLoading,
       btnIcon_display := (if isLoading then ''none'' else ''block''),
       spinner_display := (if isLoading then ''block'' else ''none'')\<rparr>"

definition hideWelcomeScreen :: "ui \<Rightarrow> ui" where
  "hideWelcomeScreen s =
     (case welcomeScreen s of
        None \<Rightarrow> s
      | Some d \<Rightarrow> s\<lparr>welcomeScreen := Some ''none''\<rparr>)"

definition autoResizeInput :: "nat \<Rightarrow> ui \<Rightarrow> ui" where
  "autoResizeInput h s = (s\<lparr>input_height := Auto\<rparr>)\<lparr>input_height := Px h\<rparr>"

text \<open>The request that \<^verbatim>\<open>fetchAnswer\<close> hands to \<^verbatim>\<open>fetch\<close>.\<close>

definition fetchAnswer_request :: "string \<Rightarrow> request" where
  "fetchAnswer_request q =
     \<lparr>req_url = ''/api/ask'', req_method = ''POST'',
      req_content_type = ''application/json'',
      req_body = JObj [(''question'', JStr q)]\<rparr>"

text \<open>
  How the network answers: \<^verbatim>\<open>fetch\<close> rejects, or it resolves to a response with a
  status and a body that \<^verbatim>\<open>response.json()\<close> parses (\<open>None\<close>: the body is not JSON
  and \<^verbatim>\<open>json()\<close> rejects).
\<close>

datatype outcome =
    Rejected js_error
  | Response nat "json option"

definition ok :: "nat \<Rightarrow> bool" where
  "ok st \<longleftrightarrow> 200 \<le> st \<and> st \<le> 299"

text \<open>
  The rest of \<^verbatim>\<open>fetchAnswer\<close>, once the network has answered.  Its two \<^verbatim>\<open>await\<close>s
  are one suspension here: nothing between them touches the state.  \<^verbatim>\<open>new Error(x)\<close>
  converts \<open>x\<close> to text, which may throw in its turn.
\<close>

definition fetchAnswer_settle :: "outcome \<Rightarrow> js_error + json" where
  "fetchAnswer_settle out =
     (case out of
        Rejected e \<Rightarrow> Inl e
      | Response st b \<Rightarrow>
          if \<not> ok st then
            (case b of
               None \<Rightarrow> Inl SyntaxError
             | Some data \<Rightarrow>
                 (case getProp data ''error'' of
                    Inl e \<Rightarrow> Inl e
                  | Inr v \<Rightarrow>
                      (case v of
                         None \<Rightarrow> Inl (Error ''Failed to get answer'')
                       | Some j \<Rightarrow>
                           if truthy v then
                             (case toString j of
                                Inl e \<Rightarrow> Inl e
                              | Inr t \<Rightarrow> Inl (Error t))
                           else Inl (Error ''Failed to get answer''))))
          else
            (case b of
               None \<Rightarrow> Inl SyntaxError
             | Some data \<Rightarrow> Inr data))"

definition handleResponse :: "string \<Rightarrow> json \<Rightarrow> comp" where
  "handleResponse q data s =
     (case getProp data ''answer'' of
        Inl e \<Rightarrow> (Throw e, s)
      | Inr a \<Rightarrow>
          (case addMessage (ChatMessage a ''ai'' s) s of
             (Throw e, s1) \<Rightarrow> (Throw e, s1)
           | (Normal, s1) \<Rightarrow>
               (Normal,
                s1\<lparr>conversationHistory :=
                     conversationHistory s1 @
                       [\<lparr>question = q, answer = a, timestamp = now s1\<rparr>]\<rparr>)))"

definition handleError :: "js_error \<Rightarrow> ui \<Rightarrow> ui" where
  "handleError error s =
     ErrorMessage_display
       (ErrorMessage
          ''Failed to connect to the server. Please make sure the backend is running.'')
       (s\<lparr>console := console s @ [error]\<rparr>)"

text \<open>
  \<^verbatim>\<open>handleFormSubmit\<close> up to its \<^verbatim>\<open>await\<close>: the call of \<^verbatim>\<open>fetch\<close> is its last
  act before it is suspended.  A throw before the \<^verbatim>\<open>try\<close> would end the handler
  with an error that nothing catches.
\<close>

definition handleFormSubmit :: "ui \<Rightarrow> ui" where
  "handleFormSubmit s =
     (let q = trim (input_value s) in
      if q = [] then s
      else
        let s1 = hideWelcomeScreen s in
        case addMessage (ChatMessage (Some (JStr q)) ''user'' s1) s1 of
          (Throw e, s2) \<Rightarrow> s2\<lparr>uncaught := uncaught s2 @ [e]\<rparr>
        | (Normal, s2) \<Rightarrow>
            let s3 = clearInput s2;
                s4 = setLoadingState True s3;
                s5 = s4\<lparr>chatMessages :=
                          chatMessages s4 @ [TypingIndicator_create (next_ref s4)],
                        next_ref := Suc (next_ref s4)\<rparr>
            in s5\<lparr>sent := sent s5 @ [fetchAnswer_request q],
                   pending := pending s5 @ [q]\<rparr>)"

text \<open>The body of the \<^verbatim>\<open>try\<close>, the \<^verbatim>\<open>finally\<close> block, and the whole continuation.\<close>

definition tryBody :: "string \<Rightarrow> outcome \<Rightarrow> comp" where
  "tryBody q out s =
     (case fetchAnswer_settle out of
        Inl e \<Rightarrow> (Throw e, s)
      | Inr data \<Rightarrow> handleResponse q data s)"

definition finallyBlock :: "ui \<Rightarrow> ui" where
  "finallyBlock s = TypingIndicator_remove (setLoadingState False s)"

definition handleFormSubmit_resume :: "string \<Rightarrow> outcome \<Rightarrow> comp" where
  "handleFormSubmit_resume q out =
     tryCatchFinally (tryBody q out) (\<lambda>e. lift (handleError e)) (lift finallyBlock)"

definition handleKeyDown :: "string \<Rightarrow> bool \<Rightarrow> ui \<Rightarrow> ui" where
  "handleKeyDown key shiftKey s =
     (if key = ''Enter'' \<and> \<not> shiftKey then handleFormSubmit s else s)"

section \<open>The event loop\<close>

text \<open>
  One event is handled at a time.  The user's events reach the page as the browser
  delivers them: a disabled field takes neither text nor key presses, and a disabled
  button does not submit its form.  \<open>Settle i out\<close> resumes the \<open>i\<close>-th suspended
  submission with the network's answer, \<open>Fire i\<close> runs the \<open>i\<close>-th timer once it
  is due, \<open>Advance d\<close> lets time pass.  An error that nothing catches is recorded in
  \<open>uncaught\<close>.
\<close>

datatype event =
    InputText string nat
  | KeyDown string bool
  | ClickSubmit
  | Settle nat outcome
  | Fire nat
  | Advance nat

definition dropAt :: "nat \<Rightarrow> 'a list \<Rightarrow> 'a list" where
  "dropAt i xs = take i xs @ drop (Suc i) xs"

definition report :: "completion \<times> ui \<Rightarrow> ui" where
  "report r = (case r of (Normal, s) \<Rightarrow> s | (Throw e, s) \<Rightarrow> s\<lparr>uncaught := uncaught s @ [e]\<rparr>)"

fun step :: "event \<Rightarrow> ui \<Rightarrow> ui" where
  "step (InputText v h) s =
     (if input_disabled s then s else autoResizeInput h (s\<lparr>input_value := v\<rparr>))"
| "step (KeyDown key shiftKey) s =
     (if input_disabled s then s else handleKeyDown key shiftKey s)"
| "step ClickSubmit s = (if btn_disabled s then s else handleFormSubmit s)"
| "step (Settle i out) s =
     (if i < length (pending s)
      then report (handleFormSubmit_resume (pending s ! i) out
                     (s\<lparr>pending := dropAt i (pending s)\<rparr>))
      else s)"
| "step (Fire i) s =
     (if i < length (timers s) \<and> fst (timers s ! i) \<le> now s
      then report (run_callback (snd (timers s ! i)) (s\<lparr>timers := dropAt i (timers s)\<rparr>))
      else s)"
| "step (Advance d) s = s\<lparr>now := now s + d\<rparr>"

fun run :: "event list \<Rightarrow> ui \<Rightarrow> ui" where
  "run [] s = s"
| "run (e # es) s = run es (step e s)"

text \<open>
  The page as the constructor of \<^verbatim>\<open>ChatUI\<close> finds it: nothing disabled, nothing sent,
  no timer set, an empty history, and no element in the message list that carries the id
  of the typing placeholder.  The elements already in the list are older than any
  element the program will create.
\<close>

definition hasTyping :: "ui \<Rightarrow> bool" where
  "hasTyping s \<longleftrightarrow> getElementById ''typingIndicator'' s \<noteq> None"

definition loaded :: "ui \<Rightarrow> bool" where
  "loaded s \<longleftrightarrow>
     \<not> input_disabled s \<and> \<not> btn_disabled s \<and> pending s = [] \<and> sent s = [] \<and>
     conversationHistory s = [] \<and> timers s = [] \<and> \<not> hasTyping s \<and>
     list_all (\<lambda>e. ref e < next_ref s) (chatMessages s)"

section \<open>Auxiliary definitions for the properties\<close>

text \<open>The state in which the \<^verbatim>\<open>finally\<close> block is entered.\<close>

definition beforeFinally :: "string \<Rightarrow> outcome \<Rightarrow> ui \<Rightarrow> ui" where
  "beforeFinally q out s =
     (case tryBody q out s of (Normal, s1) \<Rightarrow> s1 | (Throw e, s1) \<Rightarrow> handleError e s1)"

text \<open>
  The element that \<^verbatim>\<open>getElement\<close> builds for a message of the sender \<open>sd\<close> whose
  content converts to the text \<open>t\<close>, and the state after \<^verbatim>\<open>addMessage\<close> has appended
  an element.
\<close>

definition messageElement :: "string \<Rightarrow> string \<Rightarrow> nat \<Rightarrow> element" where
  "messageElement sd t r =
     \<lparr>ref = r, className = ''message message-'' @ sd, el_id = [],
      inner = MessageHtml (if sd = ''user'' then ''You'' else ''AI CHAT BOT'')
                (replaceNewlines (serializeText t))\<rparr>"

definition appended :: "element \<Rightarrow> ui \<Rightarrow> ui" where
  "appended el s =
     scrollToBottom (s\<lparr>chatMessages := chatMessages s @ [el], next_ref := Suc (next_ref s)\<rparr>)"

text \<open>A content with markup characters and a line feed in it.\<close>

definition markup0 :: string where
  "markup0 = [CHR ''<'', CHR ''b'', CHR ''>'', LF, CHR ''&'']"

text \<open>A content that cannot be converted to text.\<close>

definition unconvertible :: json where
  "unconvertible = JObj [(''toString'', JNum ''1'')]"

text \<open>
  Three pages for the examples: one with a welcome panel and the question \<open>hi\<close> typed
  between blanks, the same page with only white space typed, and the same page without
  an element of class \<^verbatim>\<open>chat-main\<close>.
\<close>

definition page0 :: ui where
  "page0 =
     \<lparr>welcomeScreen = Some [], input_value = '' hi '', input_height = Initial,
      input_disabled = False, btn_disabled = False, btnIcon_display = [],
      spinner_display = [], chatMessages = [], chatMain = Some 0,
      scrollTop = (\<lambda>_. 0), scrollHeight = (\<lambda>_. 0), next_ref = 1, timers = [], now = 0,
      conversationHistory = [], console = [], uncaught = [], sent = [], pending = []\<rparr>"

definition blankPage :: ui where
  "blankPage = page0\<lparr>input_value := [CHR 0x20, LF, CHR 0x09]\<rparr>"

definition bare0 :: ui where
  "bare0 = page0\<lparr>chatMain := None\<rparr>"

text \<open>
  The invariant of the event loop.  Field and button are disabled together and exactly
  while a submission is suspended; there is at most one such submission and one typing
  placeholder for it; every element is older than the next one to be created; and no
  timer that removes an error notice holds the placeholder.
\<close>

definition isTyping :: "element \<Rightarrow> bool" where
  "isTyping e \<longleftrightarrow> el_id e = ''typingIndicator''"

fun removes :: "nat \<times> callback \<Rightarrow> nat list" where
  "removes (d, RemoveElement r) = [r]"
| "removes (d, ScrollSettle c) = []"

definition removalRefs :: "(nat \<times> callback) list \<Rightarrow> nat list" where
  "removalRefs ts = concat (map removes ts)"

definition consistent :: "ui \<Rightarrow> bool" where
  "consistent s \<longleftrightarrow>
     input_disabled s = btn_disabled s \<and>
     (input_disabled s \<longleftrightarrow> pending s \<noteq> []) \<and>
     length (pending s) \<le> 1 \<and>
     length (filter isTyping (chatMessages s)) = length (pending s) \<and>
     (input_disabled s \<longrightarrow> btnIcon_display s = ''none'' \<and> spinner_display s = ''block'') \<and>
     (\<forall>e \<in> set (chatMessages s). ref e < next_ref s) \<and>
     (\<forall>r \<in> set (removalRefs (timers s)). r < next_ref s) \<and>
     (\<forall>e \<in> set (chatMessages s). isTyping e \<longrightarrow> ref e \<notin> set (removalRefs (timers s)))"

text \<open>What \<^verbatim>\<open>TypingIndicator.remove\<close> does to the list of messages.\<close>

definition dropTyping :: "element list \<Rightarrow> element list" where
  "dropTyping xs =
     (case find (\<lambda>e. el_id e = ''typingIndicator'') xs of
        None \<Rightarrow> xs
      | Some t \<Rightarrow> remove1 t xs)"

text \<open>An exchange that fails: \<^verbatim>\<open>fetch\<close> rejects, or the status is not a 2xx one.\<close>

definition failedExchange :: "outcome \<Rightarrow> bool" where
  "failedExchange out = (case out of Rejected e \<Rightarrow> True | Response st b \<Rightarrow> \<not> ok st)"

text \<open>
  How a browser reads the markup that \<^verbatim>\<open>getElement\<close> puts into the content hole, as
  long as the markup holds nothing but characters, the four character references that
  the serialiser writes and line-break tags: the characters and line breaks that end up
  on the page.  It gives \<open>None\<close> as soon as any other tag or reference begins, that
  is, as soon as markup of the content would be interpreted.  Characters are given as
  they are written.
\<close>

datatype piece = Chr char | Break

function readFragment :: "string \<Rightarrow> piece list option" where
  "readFragment h =
     (if h = [] then Some []
      else if take 4 h = ''<br>'' then map_option ((#) Break) (readFragment (drop 4 h))
      else if take 5 h = ''&amp;'' then map_option ((#) (Chr CHR ''&'')) (readFragment (drop 5 h))
      else if take 6 h = ''&nbsp;'' then map_option ((#) (Chr NBSP)) (readFragment (drop 6 h))
      else if take 4 h = ''&lt;'' then map_option ((#) (Chr CHR ''<'')) (readFragment (drop 4 h))
      else if take 4 h = ''&gt;'' then map_option ((#) (Chr CHR ''>'')) (readFragment (drop 4 h))
      else if hd h = CHR ''<'' \<or> hd h = CHR ''&'' then None
      else map_option ((#) (Chr (hd h))) (readFragment (tl h)))"
  by pat_completeness auto
termination
  by (relation "measure length") auto

text \<open>What a character of the content should look like on the page.\<close>

definition shown :: "char \<Rightarrow> piece" where
  "shown c = (if c = LF then Break else Chr c)"

section \<open>What each operation changes\<close>

lemma resume_eq:
  "handleFormSubmit_resume q out s = (Normal, finallyBlock (beforeFinally q out s))"
  by (simp add: handleFormSubmit_resume_def tryCatchFinally_def beforeFinally_def lift_def
      split: prod.splits completion.splits)

lemma addMessage_cases:
  "addMessage m s =
     (case textOf (content m) of
        Inl e \<Rightarrow> (Throw e, s)
      | Inr t \<Rightarrow> (Normal, appended (messageElement (sender m) t (next_ref s)) s))"
  by (simp add: addMessage_def getElement_def escapeHtml_def messageElement_def appended_def
      getSenderLabel_def split: sum.splits)

lemma appended_fields [simp]:
  "pending (appended el s) = pending s" "sent (appended el s) = sent s"
  "uncaught (appended el s) = uncaught s" "now (appended el s) = now s"
  "conversationHistory (appended el s) = conversationHistory s"
  "console (appended el s) = console s"
  "next_ref (appended el s) = Suc (next_ref s)"
  "timers (appended el s) = timers s @ [(now s + 100, ScrollSettle (chatMain s))]"
  "chatMessages (appended el s) = chatMessages s @ [el]"
  "input_disabled (appended el s) = input_disabled s"
  "btn_disabled (appended el s) = btn_disabled s"
  by (simp_all add: appended_def scrollToBottom_def)

lemma tryBody_cases:
  "tryBody q out s =
     (case fetchAnswer_settle out of
        Inl e \<Rightarrow> (Throw e, s)
      | Inr data \<Rightarrow>
          (case getProp data ''answer'' of
             Inl e \<Rightarrow> (Throw e, s)
           | Inr a \<Rightarrow>
               (case textOf a of
                  Inl e \<Rightarrow> (Throw e, s)
                | Inr t \<Rightarrow>
                    (Normal,
                     (appended (messageElement ''ai'' t (next_ref s)) s)
                       \<lparr>conversationHistory :=
                          conversationHistory s @
                            [\<lparr>question = q, answer = a, timestamp = now s\<rparr>]\<rparr>))))"
  by (simp add: tryBody_def handleResponse_def addMessage_cases ChatMessage_def
      split: sum.splits)

lemma tryBody_Throw_state: "tryBody q out s = (Throw e, s1) \<Longrightarrow> s1 = s"
  by (auto simp: tryBody_cases split: sum.splits)

lemma handleFormSubmit_eq:
  "handleFormSubmit s =
     (let q = trim (input_value s) in
      if q = [] then s
      else
        let s1 = hideWelcomeScreen s;
            s2 = appended (messageElement ''user'' q (next_ref s1)) s1;
            s3 = clearInput s2;
            s4 = setLoadingState True s3;
            s5 = s4\<lparr>chatMessages := chatMessages s4 @ [TypingIndicator_create (next_ref s4)],
                    next_ref := Suc (next_ref s4)\<rparr>
        in s5\<lparr>sent := sent s5 @ [fetchAnswer_request q],
               pending := pending s5 @ [q]\<rparr>)"
  by (simp add: handleFormSubmit_def addMessage_cases ChatMessage_def Let_def)

lemma finallyBlock_enabled [simp]:
  "input_disabled (finallyBlock s) = False" "btn_disabled (finallyBlock s) = False"
  "btnIcon_display (finallyBlock s) = ''block''" "spinner_display (finallyBlock s) = ''none''"
  by (simp_all add: finallyBlock_def TypingIndicator_remove_def setLoadingState_def
      split: option.splits)

lemma finallyBlock_frame [simp]:
  "pending (finallyBlock s) = pending s" "sent (finallyBlock s) = sent s"
  "timers (finallyBlock s) = timers s" "next_ref (finallyBlock s) = next_ref s"
  "conversationHistory (finallyBlock s) = conversationHistory s"
  "console (finallyBlock s) = console s" "uncaught (finallyBlock s) = uncaught s"
  "now (finallyBlock s) = now s"
  by (simp_all add: finallyBlock_def TypingIndicator_remove_def setLoadingState_def
      split: option.splits)

lemma handleError_fields [simp]:
  "pending (handleError e s) = pending s" "sent (handleError e s) = sent s"
  "uncaught (handleError e s) = uncaught s" "now (handleError e s) = now s"
  "conversationHistory (handleError e s) = conversationHistory s"
  "console (handleError e s) = console s @ [e]"
  "next_ref (handleError e s) = Suc (next_ref s)"
  "timers (handleError e s) = timers s @ [(now s + 5000, RemoveElement (next_ref s))]"
  "chatMessages (handleError e s) =
     chatMessages s @
       [ErrorMessage_create
          (ErrorMessage
             ''Failed to connect to the server. Please make sure the backend is running.'')
          (next_ref s)]"
  "input_disabled (handleError e s) = input_disabled s"
  "btn_disabled (handleError e s) = btn_disabled s"
  by (simp_all add: handleError_def ErrorMessage_display_def ErrorMessage_def
      ErrorMessage_create_def Let_def)

lemma tryBody_Normal:
  "tryBody q out s = (Normal, s1) \<longleftrightarrow>
     (\<exists>data a t. fetchAnswer_settle out = Inr data \<and> getProp data ''answer'' = Inr a \<and>
        textOf a = Inr t \<and>
        s1 = (appended (messageElement ''ai'' t (next_ref s)) s)
               \<lparr>conversationHistory :=
                  conversationHistory s @ [\<lparr>question = q, answer = a, timestamp = now s\<rparr>]\<rparr>)"
  by (auto simp: tryBody_cases split: sum.splits)

lemma beforeFinally_frame [simp]:
  "pending (beforeFinally q out s) = pending s" "sent (beforeFinally q out s) = sent s"
  "uncaught (beforeFinally q out s) = uncaught s" "now (beforeFinally q out s) = now s"
  "next_ref (beforeFinally q out s) = Suc (next_ref s)"
  by (auto simp: beforeFinally_def tryBody_Normal split: prod.splits completion.splits
      dest: tryBody_Throw_state)

lemma report_fields [simp]:
  "input_disabled (report r) = input_disabled (snd r)"
  "btn_disabled (report r) = btn_disabled (snd r)"
  "btnIcon_display (report r) = btnIcon_display (snd r)"
  "spinner_display (report r) = spinner_display (snd r)"
  "chatMessages (report r) = chatMessages (snd r)"
  "pending (report r) = pending (snd r)"
  "sent (report r) = sent (snd r)"
  "timers (report r) = timers (snd r)"
  "next_ref (report r) = next_ref (snd r)"
  "conversationHistory (report r) = conversationHistory (snd r)"
  "console (report r) = console (snd r)"
  by (simp_all add: report_def split: prod.splits completion.splits)

lemma dropWhile_all: "(\<forall>x\<in>set (dropWhile P v). P x) \<longleftrightarrow> (\<forall>x\<in>set v. P x)"
  by (induction v) auto

lemma trim_Nil_iff: "trim v = [] \<longleftrightarrow> list_all isWhiteSpace v"
  by (simp add: trim_def dropWhile_eq_Nil_conv list_all_iff dropWhile_all)

lemma handleFormSubmit_busy:
  assumes "trim (input_value s) \<noteq> []"
  shows "input_disabled (handleFormSubmit s)" "btn_disabled (handleFormSubmit s)"
    "btnIcon_display (handleFormSubmit s) = ''none''"
    "spinner_display (handleFormSubmit s) = ''block''"
    "pending (handleFormSubmit s) = pending s @ [trim (input_value s)]"
    "sent (handleFormSubmit s) = sent s @ [fetchAnswer_request (trim (input_value s))]"
  using assms
  by (simp_all add: handleFormSubmit_eq Let_def setLoadingState_def clearInput_def
      appended_def scrollToBottom_def hideWelcomeScreen_def split: option.splits)

lemma tcf_finally:
  "input_disabled (snd (tryCatchFinally b h (lift finallyBlock) s)) = False"
  "btn_disabled (snd (tryCatchFinally b h (lift finallyBlock) s)) = False"
  by (simp_all add: tryCatchFinally_def lift_def split: prod.splits completion.splits)

lemma page0_trim: "trim (input_value page0) = ''hi''"
  by (simp add: page0_def trim_def isWhiteSpace_def)

section \<open>Cleanup of the busy state\<close>

text \<open>
  C1.  A submission whose trimmed input is not empty makes the page busy (field and
  button disabled) and is suspended; when its network exchange settles, with whatever
  outcome, the page is no longer busy: field and button are enabled, the send icon is
  shown and the spinner is hidden.  The same holds for any suspended submission in any
  state, and it holds of the \<^verbatim>\<open>finally\<close> block whatever the \<^verbatim>\<open>try\<close> body and the
  \<^verbatim>\<open>catch\<close> handler do, also when they throw.
\<close>

theorem busy_cleared_when_settled:
  "trim (input_value s) \<noteq> [] \<Longrightarrow>
     input_disabled (handleFormSubmit s) \<and> btn_disabled (handleFormSubmit s) \<and>
     pending (handleFormSubmit s) = pending s @ [trim (input_value s)] \<and>
     (\<forall>out. let t = step (Settle (length (pending s)) out) (handleFormSubmit s)
        in \<not> input_disabled t \<and> \<not> btn_disabled t \<and> btnIcon_display t = ''block'' \<and>
           spinner_display t = ''none'' \<and> pending t = pending s) \<and>
     (\<forall>i out u. i < length (pending u) \<longrightarrow>
        \<not> input_disabled (step (Settle i out) u) \<and> \<not> btn_disabled (step (Settle i out) u)) \<and>
     (\<forall>b h u. \<not> input_disabled (snd (tryCatchFinally b h (lift finallyBlock) u)) \<and>
        \<not> btn_disabled (snd (tryCatchFinally b h (lift finallyBlock) u)))"
  by (simp add: handleFormSubmit_busy tcf_finally resume_eq Let_def dropAt_def)

theorem busy_cleared_when_settled_witness:
  "trim (input_value page0) \<noteq> [] \<and>
   input_disabled (handleFormSubmit page0) \<and>
   \<not> input_disabled (step (Settle 0 (Response 200 (Some JNull))) (handleFormSubmit page0)) \<and>
   \<not> btn_disabled (step (Settle 0 (Rejected NetworkError)) (handleFormSubmit page0))"
proof -
  have h: "trim (input_value page0) \<noteq> []"
    by (simp add: page0_trim)
  have p: "pending page0 = []"
    by (simp add: page0_def)
  from busy_cleared_when_settled [OF h] show ?thesis
    using h by (simp add: Let_def p del: step.simps)
qed

section \<open>Empty submissions\<close>

text \<open>
  C6.  When the input holds nothing but white space (or nothing at all), its trimmed
  value is empty and a submission leaves the whole state as it was: nothing is
  rendered, nothing is sent, nothing is disabled, no error is logged or left uncaught.
  This holds of the handler and of the two ways the user reaches it.
\<close>

theorem empty_submit_suppressed:
  "list_all isWhiteSpace (input_value s) \<Longrightarrow>
     trim (input_value s) = [] \<and> handleFormSubmit s = s \<and>
     step ClickSubmit s = s \<and> step (KeyDown ''Enter'' False) s = s"
  by (simp add: trim_Nil_iff handleFormSubmit_def handleKeyDown_def)

theorem empty_submit_suppressed_witness:
  "list_all isWhiteSpace (input_value blankPage) \<and>
   handleFormSubmit blankPage = blankPage \<and> step ClickSubmit blankPage = blankPage"
proof -
  have h: "list_all isWhiteSpace (input_value blankPage)"
    by (simp add: blankPage_def isWhiteSpace_def LF_def)
  from empty_submit_suppressed [OF h] show ?thesis
    using h by (simp del: step.simps)
qed

section \<open>The invariant of the event loop\<close>

lemma removalRefs_simps [simp]:
  "removalRefs [] = []"
  "removalRefs (ts @ [(d, RemoveElement r)]) = removalRefs ts @ [r]"
  "removalRefs (ts @ [(d, ScrollSettle c)]) = removalRefs ts"
  by (simp_all add: removalRefs_def)

lemma removalRefs_mem: "(d, RemoveElement r) \<in> set ts \<Longrightarrow> r \<in> set (removalRefs ts)"
  by (force simp: removalRefs_def)

lemma removalRefs_dropAt: "set (removalRefs (dropAt i ts)) \<subseteq> set (removalRefs ts)"
  by (auto simp: removalRefs_def dropAt_def dest: in_set_takeD in_set_dropD)

lemma hasTyping_filter: "hasTyping s \<longleftrightarrow> filter isTyping (chatMessages s) \<noteq> []"
  by (auto simp: hasTyping_def getElementById_def isTyping_def find_None_iff filter_empty_conv)

lemma loaded_consistent: "loaded s \<Longrightarrow> consistent s"
  by (simp add: loaded_def consistent_def hasTyping_filter list_all_iff)

lemma TypingIndicator_remove_count:
  "length (filter isTyping (chatMessages (TypingIndicator_remove s))) =
   length (filter isTyping (chatMessages s)) - 1"
proof (cases "getElementById ''typingIndicator'' s")
  case None
  then have "filter isTyping (chatMessages s) = []"
    by (auto simp: getElementById_def isTyping_def find_None_iff filter_empty_conv)
  with None show ?thesis by (simp add: TypingIndicator_remove_def)
next
  case (Some t)
  then have "t \<in> set (chatMessages s)" "isTyping t"
    by (auto simp: getElementById_def isTyping_def find_Some_iff)
  then have "t \<in> set (filter isTyping (chatMessages s))" by simp
  with Some show ?thesis
    by (simp add: TypingIndicator_remove_def filter_remove1 length_remove1 del: set_filter)
qed

lemma TypingIndicator_remove_subset:
  "set (chatMessages (TypingIndicator_remove s)) \<subseteq> set (chatMessages s)"
  using set_remove1_subset by (fastforce simp: TypingIndicator_remove_def split: option.splits)

lemma TypingIndicator_remove_frame [simp]:
  "pending (TypingIndicator_remove s) = pending s"
  "timers (TypingIndicator_remove s) = timers s"
  "next_ref (TypingIndicator_remove s) = next_ref s"
  "input_disabled (TypingIndicator_remove s) = input_disabled s"
  "btn_disabled (TypingIndicator_remove s) = btn_disabled s"
  by (simp_all add: TypingIndicator_remove_def split: option.splits)

lemma messageElement_not_typing [simp]: "\<not> isTyping (messageElement sd t r)"
  by (simp add: isTyping_def messageElement_def)

lemma notice_not_typing [simp]: "\<not> isTyping (ErrorMessage_create em r)"
  by (simp add: isTyping_def ErrorMessage_create_def)

lemma typing_is_typing [simp]: "isTyping (TypingIndicator_create r)"
  by (simp add: isTyping_def TypingIndicator_create_def)

lemma refs [simp]: "ref (messageElement sd t r) = r" "ref (ErrorMessage_create em r) = r"
  "ref (TypingIndicator_create r) = r"
  by (simp_all add: messageElement_def ErrorMessage_create_def TypingIndicator_create_def)

lemma handleFormSubmit_view:
  assumes "trim (input_value s) \<noteq> []"
  shows "chatMessages (handleFormSubmit s) =
           chatMessages s @
             [messageElement ''user'' (trim (input_value s)) (next_ref s),
              TypingIndicator_create (Suc (next_ref s))]"
    "next_ref (handleFormSubmit s) = Suc (Suc (next_ref s))"
    "timers (handleFormSubmit s) = timers s @ [(now s + 100, ScrollSettle (chatMain s))]"
  using assms
  by (simp_all add: handleFormSubmit_eq Let_def setLoadingState_def clearInput_def
      appended_def scrollToBottom_def hideWelcomeScreen_def split: option.splits)

lemma handleFormSubmit_input:
  assumes "trim (input_value s) \<noteq> []"
  shows "input_value (handleFormSubmit s) = []"
    "welcomeScreen (handleFormSubmit s) = (case welcomeScreen s of None \<Rightarrow> None | Some d \<Rightarrow> Some ''none'')"
  using assms
  by (simp_all add: handleFormSubmit_eq Let_def setLoadingState_def clearInput_def
      appended_def scrollToBottom_def hideWelcomeScreen_def split: option.splits)

lemma handleFormSubmit_frame [simp]:
  "now (handleFormSubmit s) = now s" "console (handleFormSubmit s) = console s"
  "conversationHistory (handleFormSubmit s) = conversationHistory s"
  "uncaught (handleFormSubmit s) = uncaught s" "chatMain (handleFormSubmit s) = chatMain s"
  by (simp_all add: handleFormSubmit_eq Let_def setLoadingState_def clearInput_def
      appended_def scrollToBottom_def hideWelcomeScreen_def split: option.splits)

lemma consistent_submit:
  assumes "consistent s" "\<not> input_disabled s"
  shows "consistent (handleFormSubmit s)"
proof (cases "trim (input_value s) = []")
  case True
  with assms show ?thesis by (simp add: handleFormSubmit_def)
next
  case False
  from assms have p: "pending s = []" "filter isTyping (chatMessages s) = []"
    by (auto simp: consistent_def)
  from assms(1) have r: "\<forall>e \<in> set (chatMessages s). ref e < next_ref s"
    "\<forall>r \<in> set (removalRefs (timers s)). r < next_ref s"
    by (auto simp: consistent_def)
  show ?thesis
    unfolding consistent_def
    using p r
    by (auto simp: handleFormSubmit_busy [OF False] handleFormSubmit_view [OF False]
        less_Suc_eq filter_empty_conv)
qed

lemma beforeFinally_view:
  "\<exists>e. chatMessages (beforeFinally q out s) = chatMessages s @ [e] \<and> \<not> isTyping e \<and>
       ref e = next_ref s \<and>
       (timers (beforeFinally q out s) = timers s @ [(now s + 100, ScrollSettle (chatMain s))] \<or>
        timers (beforeFinally q out s) = timers s @ [(now s + 5000, RemoveElement (next_ref s))])"
  by (auto simp: beforeFinally_def tryBody_Normal split: prod.splits completion.splits
      dest: tryBody_Throw_state)

lemma beforeFinally_flags [simp]:
  "input_disabled (beforeFinally q out s) = input_disabled s"
  "btn_disabled (beforeFinally q out s) = btn_disabled s"
  by (auto simp: beforeFinally_def tryBody_Normal split: prod.splits completion.splits
      dest: tryBody_Throw_state)

lemma finallyBlock_count:
  "length (filter isTyping (chatMessages (finallyBlock s))) =
   length (filter isTyping (chatMessages s)) - 1"
  "set (chatMessages (finallyBlock s)) \<subseteq> set (chatMessages s)"
  using TypingIndicator_remove_count [of "setLoadingState False s"]
    TypingIndicator_remove_subset [of "setLoadingState False s"]
  by (simp_all add: finallyBlock_def setLoadingState_def)

lemma consistent_settle:
  assumes "consistent s" "i < length (pending s)"
  shows "consistent (step (Settle i out) s)"
proof -
  let ?u = "s\<lparr>pending := dropAt i (pending s)\<rparr>"
  let ?m = "beforeFinally (pending s ! i) out ?u"
  from assms have one: "length (pending s) = 1" "i = 0"
    by (auto simp: consistent_def)
  then have d: "dropAt i (pending s) = []"
    by (cases "pending s") (auto simp: dropAt_def)
  from assms(1) one have c: "length (filter isTyping (chatMessages s)) = 1"
    by (simp add: consistent_def)
  obtain e where e: "chatMessages ?m = chatMessages s @ [e]" "\<not> isTyping e" "ref e = next_ref s"
    and t': "timers ?m = timers s @ [(now s + 100, ScrollSettle (chatMain s))] \<or>
             timers ?m = timers s @ [(now s + 5000, RemoveElement (next_ref s))]"
    using beforeFinally_view [of "pending s ! i" out ?u] by auto
  from t' have t: "set (removalRefs (timers ?m)) \<subseteq>
              insert (next_ref s) (set (removalRefs (timers s)))"
    by auto
  have z: "filter isTyping (chatMessages (finallyBlock ?m)) = []"
    using finallyBlock_count(1) [of ?m] e c by simp
  have sub: "set (chatMessages (finallyBlock ?m)) \<subseteq> insert e (set (chatMessages s))"
    using finallyBlock_count(2) [of ?m] e by auto
  from assms(1) have r: "\<forall>e \<in> set (chatMessages s). ref e < next_ref s"
    "\<forall>r \<in> set (removalRefs (timers s)). r < next_ref s"
    by (auto simp: consistent_def)
  have "consistent (finallyBlock ?m)"
    unfolding consistent_def
    using z sub e r t d
    by (auto simp: filter_empty_conv less_Suc_eq)
  with assms(2) show ?thesis
    by (simp add: resume_eq report_def)
qed

lemma consistent_fire:
  assumes "consistent s" "i < length (timers s)"
  shows "consistent (report (run_callback (snd (timers s ! i)) (s\<lparr>timers := dropAt i (timers s)\<rparr>)))"
proof (cases "timers s ! i")
  case (Pair d cb)
  from assms(2) have mem: "(d, cb) \<in> set (timers s)"
    using Pair nth_mem by fastforce
  show ?thesis
  proof (cases cb)
    case (RemoveElement r)
    with mem have "r \<in> set (removalRefs (timers s))"
      by (simp add: removalRefs_mem)
    with assms(1) have nt: "\<forall>e \<in> set (chatMessages s). isTyping e \<longrightarrow> ref e \<noteq> r"
      by (auto simp: consistent_def)
    then have f: "filter isTyping (filter (\<lambda>e. ref e \<noteq> r) (chatMessages s)) =
                  filter isTyping (chatMessages s)"
      by (auto intro: filter_cong)
    show ?thesis
      unfolding consistent_def
      using assms(1) removalRefs_dropAt [of i "timers s"] Pair RemoveElement f
      by (auto simp: consistent_def report_def)
  next
    case (ScrollSettle c)
    show ?thesis
      unfolding consistent_def
      using assms(1) removalRefs_dropAt [of i "timers s"] Pair ScrollSettle
      by (cases c) (auto simp: consistent_def report_def)
  qed
qed

lemma consistent_step: "consistent s \<Longrightarrow> consistent (step ev s)"
proof (cases ev)
  case (InputText v h)
  assume "consistent s"
  then show ?thesis
    using InputText by (auto simp: consistent_def autoResizeInput_def)
next
  case (KeyDown key shiftKey)
  assume "consistent s"
  then show ?thesis
    using KeyDown by (simp add: consistent_submit handleKeyDown_def)
next
  case ClickSubmit
  assume c: "consistent s"
  then have "input_disabled s = btn_disabled s"
    by (simp add: consistent_def)
  with c show ?thesis
    using ClickSubmit by (simp add: consistent_submit)
next
  case (Settle i out)
  assume "consistent s"
  then show ?thesis
    using consistent_settle [of s i out] Settle by (cases "i < length (pending s)") auto
next
  case (Fire i)
  assume "consistent s"
  then show ?thesis
    using consistent_fire [of s i] Fire by auto
next
  case (Advance d)
  assume "consistent s"
  then show ?thesis
    using Advance by (auto simp: consistent_def)
qed

lemma consistent_run: "consistent s \<Longrightarrow> consistent (run es s)"
  by (induction es arbitrary: s) (auto simp: consistent_step)

section \<open>The example pages, evaluated\<close>

lemma page0_fields [simp]:
  "now page0 = 0" "console page0 = []" "conversationHistory page0 = []" "uncaught page0 = []"
  "pending page0 = []" "sent page0 = []" "timers page0 = []" "next_ref page0 = 1"
  "chatMessages page0 = []" "chatMain page0 = Some 0" "input_disabled page0 = False"
  "btn_disabled page0 = False"
  by (simp_all add: page0_def)

lemma bare0_fields [simp]:
  "trim (input_value bare0) = ''hi''" "chatMain bare0 = None" "timers bare0 = []"
  "now bare0 = 0" "uncaught bare0 = []"
  by (simp_all add: bare0_def page0_trim)

lemma loaded_page0: "loaded page0"
  by (simp add: loaded_def hasTyping_filter)

lemma submitted0:
  "pending (handleFormSubmit page0) = [''hi'']"
  "chatMessages (handleFormSubmit page0) =
     [\<lparr>ref = 1, className = ''message message-user'', el_id = [],
       inner = MessageHtml ''You'' ''hi''\<rparr>,
      \<lparr>ref = 2, className = ''message message-ai'', el_id = ''typingIndicator'',
       inner = TypingHtml\<rparr>]"
  "next_ref (handleFormSubmit page0) = 3"
  "timers (handleFormSubmit page0) = [(100, ScrollSettle (Some 0))]"
proof -
  have t: "trim (input_value page0) \<noteq> []"
    by (simp add: page0_trim)
  show "pending (handleFormSubmit page0) = [''hi'']"
    by (simp add: handleFormSubmit_busy [OF t] page0_trim)
  show "chatMessages (handleFormSubmit page0) =
     [\<lparr>ref = 1, className = ''message message-user'', el_id = [],
       inner = MessageHtml ''You'' ''hi''\<rparr>,
      \<lparr>ref = 2, className = ''message message-ai'', el_id = ''typingIndicator'',
       inner = TypingHtml\<rparr>]"
    by (simp add: handleFormSubmit_view [OF t] page0_trim messageElement_def
        TypingIndicator_create_def replaceNewlines_def serializeText_def escapeChar_def
        LF_def NBSP_def)
  show "next_ref (handleFormSubmit page0) = 3"
    by (simp add: handleFormSubmit_view [OF t])
  show "timers (handleFormSubmit page0) = [(100, ScrollSettle (Some 0))]"
    by (simp add: handleFormSubmit_view [OF t])
qed

lemma step_Settle:
  "i < length (pending s) \<Longrightarrow>
     step (Settle i out) s =
       snd (handleFormSubmit_resume (pending s ! i) out (s\<lparr>pending := dropAt i (pending s)\<rparr>))"
  by (simp add: resume_eq report_def)

section \<open>What a settled exchange leaves behind\<close>

lemma TypingIndicator_remove_chat:
  "chatMessages (TypingIndicator_remove s) = dropTyping (chatMessages s)"
  by (simp add: TypingIndicator_remove_def dropTyping_def getElementById_def split: option.splits)

lemma find_snoc:
  "find P (xs @ [e]) = (case find P xs of None \<Rightarrow> (if P e then Some e else None) | Some x \<Rightarrow> Some x)"
  by (induction xs) auto

lemma find_Some_mem: "find P xs = Some t \<Longrightarrow> t \<in> set xs \<and> P t"
  by (induction xs) (auto split: if_splits)

lemma dropTyping_snoc:
  assumes "\<not> isTyping e"
  shows "dropTyping (xs @ [e]) = dropTyping xs @ [e]"
proof (cases "find (\<lambda>e. el_id e = ''typingIndicator'') xs")
  case None
  with assms show ?thesis
    by (simp add: dropTyping_def find_snoc isTyping_def)
next
  case (Some t)
  then have "t \<in> set xs"
    by (simp add: find_Some_mem)
  with Some show ?thesis
    by (simp add: dropTyping_def find_snoc remove1_append)
qed

lemma dropTyping_subset: "set (dropTyping xs) \<subseteq> set xs"
  using set_remove1_subset by (fastforce simp: dropTyping_def split: option.splits)

lemma dropTyping_eval [simp]:
  "dropTyping
     [\<lparr>ref = r, className = ''message message-user'', el_id = [],
       inner = MessageHtml ''You'' h\<rparr>,
      \<lparr>ref = r', className = ''message message-ai'', el_id = ''typingIndicator'',
       inner = TypingHtml\<rparr>] =
     [\<lparr>ref = r, className = ''message message-user'', el_id = [],
       inner = MessageHtml ''You'' h\<rparr>]"
  by (simp add: dropTyping_def)

lemma finallyBlock_chat:
  "chatMessages (finallyBlock s) = dropTyping (chatMessages s)"
  by (simp add: finallyBlock_def TypingIndicator_remove_chat setLoadingState_def)

lemma beforeFinally_Throw:
  "tryBody q out s = (Throw e, s1) \<Longrightarrow> beforeFinally q out s = handleError e s"
  by (auto simp: beforeFinally_def dest: tryBody_Throw_state)

lemma resume_Throw:
  "tryBody q out s = (Throw e, s1) \<Longrightarrow>
     handleFormSubmit_resume q out s = (Normal, finallyBlock (handleError e s))"
  by (simp add: resume_eq beforeFinally_Throw)

lemma tryBody_Rejected: "tryBody q (Rejected e) s = (Throw e, s)"
  by (simp add: tryBody_def fetchAnswer_settle_def)

lemma resume_Rejected:
  "handleFormSubmit_resume q (Rejected e) s = (Normal, finallyBlock (handleError e s))"
  by (simp add: resume_Throw [OF tryBody_Rejected])

lemma failedExchange_Inl: "failedExchange out \<Longrightarrow> \<exists>e. fetchAnswer_settle out = Inl e"
  by (auto simp: failedExchange_def fetchAnswer_settle_def split: outcome.splits option.splits sum.splits)

lemma failure_view:
  assumes "tryBody q out s = (Throw e, s1)"
  shows "chatMessages (snd (handleFormSubmit_resume q out s)) =
           chatMessages (TypingIndicator_remove s) @
             [ErrorMessage_create (ErrorMessage
                ''Failed to connect to the server. Please make sure the backend is running.'') (next_ref s)]"
    "console (snd (handleFormSubmit_resume q out s)) = console s @ [e]"
    "conversationHistory (snd (handleFormSubmit_resume q out s)) = conversationHistory s"
    "timers (snd (handleFormSubmit_resume q out s)) =
       timers s @ [(now s + 5000, RemoveElement (next_ref s))]"
  by (simp_all add: resume_eq beforeFinally_Throw [OF assms] finallyBlock_chat dropTyping_snoc
      TypingIndicator_remove_chat)

lemma success_view:
  assumes "fetchAnswer_settle out = Inr data" "getProp data ''answer'' = Inr a"
    "textOf a = Inr t"
  shows "chatMessages (snd (handleFormSubmit_resume q out s)) =
           chatMessages (TypingIndicator_remove s) @ [messageElement ''ai'' t (next_ref s)]"
    "console (snd (handleFormSubmit_resume q out s)) = console s"
    "conversationHistory (snd (handleFormSubmit_resume q out s)) =
       conversationHistory s @ [\<lparr>question = q, answer = a, timestamp = now s\<rparr>]"
    "timers (snd (handleFormSubmit_resume q out s)) =
       timers s @ [(now s + 100, ScrollSettle (chatMain s))]"
  using assms
  by (simp_all add: resume_eq beforeFinally_def tryBody_cases finallyBlock_chat dropTyping_snoc
      TypingIndicator_remove_chat)

lemma ok_settle: "ok st \<Longrightarrow> fetchAnswer_settle (Response st (Some data)) = Inr data"
  "ok st \<Longrightarrow> fetchAnswer_settle (Response st None) = Inl SyntaxError"
  by (simp_all add: fetchAnswer_settle_def)

section \<open>The typing placeholder\<close>

text \<open>
  C2, as the claim states it, fails.  On the page \<open>page0\<close>, after the answer \<open>4\<close> has
  arrived and \<^verbatim>\<open>handleResponse\<close> has rendered it, the typing placeholder is still in
  the list although the page is busy and the response is rendered; and after
  \<^verbatim>\<open>setLoadingState(false)\<close> the placeholder is in the list although the page is no
  longer busy.  The placeholder is cleared after the rendering and after the busy state,
  not before.
\<close>

theorem typing_cleared_last_counterexample:
  "hasTyping (snd (tryBody ''hi'' (Response 200 (Some (JObj [(''answer'', JStr ''4'')])))
                    (handleFormSubmit page0))) \<and>
   input_disabled (snd (tryBody ''hi'' (Response 200 (Some (JObj [(''answer'', JStr ''4'')])))
                    (handleFormSubmit page0))) \<and>
   inner (last (chatMessages
     (snd (tryBody ''hi'' (Response 200 (Some (JObj [(''answer'', JStr ''4'')])))
             (handleFormSubmit page0))))) = MessageHtml ''AI CHAT BOT'' ''4'' \<and>
   hasTyping (setLoadingState False
     (snd (tryBody ''hi'' (Response 200 (Some (JObj [(''answer'', JStr ''4'')])))
             (handleFormSubmit page0)))) \<and>
   \<not> input_disabled (setLoadingState False
     (snd (tryBody ''hi'' (Response 200 (Some (JObj [(''answer'', JStr ''4'')])))
             (handleFormSubmit page0))))"
proof -
  have a: "fetchAnswer_settle (Response 200 (Some (JObj [(''answer'', JStr ''4'')]))) =
           Inr (JObj [(''answer'', JStr ''4'')])"
    by (simp add: fetchAnswer_settle_def ok_def)
  have d: "input_disabled (handleFormSubmit page0)"
    by (simp add: handleFormSubmit_busy page0_trim)
  show ?thesis
    using d
    by (simp add: tryBody_cases a hasTyping_filter submitted0 isTyping_def setLoadingState_def
        messageElement_def replaceNewlines_def serializeText_def escapeChar_def LF_def NBSP_def)
qed

text \<open>
  C2, amended.  In every state that the event loop reaches from a loaded page, that is,
  whenever no handler is running, the typing placeholder is present iff the page is busy,
  iff a submission is outstanding, and there is at most one placeholder.  A submission
  hides the welcome panel, renders the user's message, clears the input, sets the busy
  state, shows the placeholder and sends the request.  When the exchange settles, the
  assistant message or the error notice is rendered behind the placeholder, which is
  still there and the page still busy; then the busy state is cleared, and the
  placeholder is removed last.
\<close>

theorem typing_present_iff_busy:
  "loaded s \<Longrightarrow>
     (hasTyping (run es s) \<longleftrightarrow> input_disabled (run es s)) \<and>
     (hasTyping (run es s) \<longleftrightarrow> pending (run es s) \<noteq> []) \<and>
     length (filter isTyping (chatMessages (run es s))) \<le> 1 \<and>
     (\<forall>u. trim (input_value u) \<noteq> [] \<longrightarrow>
        welcomeScreen (handleFormSubmit u) =
          (case welcomeScreen u of None \<Rightarrow> None | Some d \<Rightarrow> Some ''none'') \<and>
        chatMessages (handleFormSubmit u) =
          chatMessages u @
            [\<lparr>ref = next_ref u, className = ''message message-user'', el_id = [],
              inner = MessageHtml ''You''
                        (replaceNewlines (serializeText (trim (input_value u))))\<rparr>,
             TypingIndicator_create (Suc (next_ref u))] \<and>
        input_value (handleFormSubmit u) = [] \<and>
        input_disabled (handleFormSubmit u) \<and>
        sent (handleFormSubmit u) = sent u @ [fetchAnswer_request (trim (input_value u))]) \<and>
     (\<forall>q out u.
        snd (handleFormSubmit_resume q out u) =
          TypingIndicator_remove (setLoadingState False (beforeFinally q out u)) \<and>
        (\<exists>e. chatMessages (beforeFinally q out u) = chatMessages u @ [e] \<and> \<not> isTyping e) \<and>
        input_disabled (beforeFinally q out u) = input_disabled u)"
proof -
  assume "loaded s"
  then have c: "consistent (run es s)"
    by (simp add: loaded_consistent consistent_run)
  then have "hasTyping (run es s) \<longleftrightarrow> input_disabled (run es s)"
    "hasTyping (run es s) \<longleftrightarrow> pending (run es s) \<noteq> []"
    "length (filter isTyping (chatMessages (run es s))) \<le> 1"
    by (auto simp: consistent_def hasTyping_filter)
  moreover have "\<forall>q out u. \<exists>e. chatMessages (beforeFinally q out u) = chatMessages u @ [e] \<and> \<not> isTyping e"
    using beforeFinally_view by blast
  ultimately show ?thesis
    by (simp add: handleFormSubmit_busy handleFormSubmit_view handleFormSubmit_input resume_eq
        finallyBlock_def messageElement_def)
qed

theorem typing_present_iff_busy_witness:
  "loaded page0 \<and> trim (input_value page0) \<noteq> [] \<and>
   hasTyping (run [ClickSubmit] page0) \<and>
   \<not> hasTyping (run [ClickSubmit, Settle 0 (Rejected NetworkError)] page0) \<and>
   input_value (handleFormSubmit page0) = []"
proof -
  have t: "trim (input_value page0) \<noteq> []"
    by (simp add: page0_trim)
  have d: "input_disabled (run [ClickSubmit] page0)"
    by (simp add: handleFormSubmit_busy page0_trim)
  have e: "\<not> input_disabled (run [ClickSubmit, Settle 0 (Rejected NetworkError)] page0)"
    by (simp add: submitted0 resume_eq)
  from typing_present_iff_busy [OF loaded_page0, of "[ClickSubmit]"]
    typing_present_iff_busy [OF loaded_page0, of "[ClickSubmit, Settle 0 (Rejected NetworkError)]"]
    d e t loaded_page0
  show ?thesis by blast
qed

section \<open>One request at a time\<close>

lemma sent_step_busy:
  assumes "consistent t" "input_disabled t"
  shows "sent (step ev t) = sent t"
proof (cases ev)
  case ClickSubmit
  from assms have "btn_disabled t"
    by (simp add: consistent_def)
  with ClickSubmit show ?thesis by simp
next
  case (Settle i out)
  then show ?thesis
    by (simp add: resume_eq)
next
  case (Fire i)
  have "sent (snd (run_callback cb v)) = sent v" for cb v
    by (cases "(cb, v)" rule: run_callback.cases) auto
  with Fire show ?thesis by simp
qed (use assms in simp_all)

lemma setLoadingState_fields:
  "input_disabled (setLoadingState b u) = b" "btn_disabled (setLoadingState b u) = b"
  "btnIcon_display (setLoadingState b u) = (if b then ''none'' else ''block'')"
  "spinner_display (setLoadingState b u) = (if b then ''block'' else ''none'')"
  by (simp_all add: setLoadingState_def)

text \<open>
  C5.  In every state that the event loop reaches from a loaded page, the input field is
  disabled exactly while a submission is outstanding; then the button is disabled too,
  the send icon is hidden and the spinner is shown; at most one submission is
  outstanding; and while the field is disabled no event, in particular none of the
  user's, sends a request.  \<^verbatim>\<open>setLoadingState\<close> sets field, button, icon and spinner
  from its argument, so that \<open>False\<close> reverses what \<open>True\<close> did.
\<close>

theorem one_request_at_a_time:
  "loaded s \<Longrightarrow>
     (input_disabled (run es s) \<longleftrightarrow> pending (run es s) \<noteq> []) \<and>
     (input_disabled (run es s) \<longrightarrow>
        btn_disabled (run es s) \<and> btnIcon_display (run es s) = ''none'' \<and>
        spinner_display (run es s) = ''block'') \<and>
     length (pending (run es s)) \<le> 1 \<and>
     (input_disabled (run es s) \<longrightarrow> (\<forall>ev. sent (step ev (run es s)) = sent (run es s))) \<and>
     (\<forall>b u. input_disabled (setLoadingState b u) = b \<and> btn_disabled (setLoadingState b u) = b \<and>
        btnIcon_display (setLoadingState b u) = (if b then ''none'' else ''block'') \<and>
        spinner_display (setLoadingState b u) = (if b then ''block'' else ''none''))"
proof -
  assume "loaded s"
  then have c: "consistent (run es s)"
    by (simp add: loaded_consistent consistent_run)
  then have "input_disabled (run es s) \<longleftrightarrow> pending (run es s) \<noteq> []"
    "input_disabled (run es s) \<longrightarrow>
        btn_disabled (run es s) \<and> btnIcon_display (run es s) = ''none'' \<and>
        spinner_display (run es s) = ''block''"
    "length (pending (run es s)) \<le> 1"
    by (auto simp: consistent_def)
  moreover have "input_disabled (run es s) \<longrightarrow> (\<forall>ev. sent (step ev (run es s)) = sent (run es s))"
    using sent_step_busy [OF c] by blast
  ultimately show ?thesis
    by (simp only: setLoadingState_fields) simp
qed

theorem one_request_at_a_time_witness:
  "loaded page0 \<and> input_disabled (run [ClickSubmit] page0) \<and>
   btn_disabled (run [ClickSubmit] page0) \<and>
   sent (step (KeyDown ''Enter'' False) (run [ClickSubmit] page0)) = sent (run [ClickSubmit] page0) \<and>
   length (pending (run [ClickSubmit, ClickSubmit, KeyDown ''Enter'' False] page0)) \<le> 1"
proof -
  have d: "input_disabled (run [ClickSubmit] page0)"
    by (simp add: handleFormSubmit_busy page0_trim)
  from one_request_at_a_time [OF loaded_page0, of "[ClickSubmit]"]
    one_request_at_a_time [OF loaded_page0, of "[ClickSubmit, ClickSubmit, KeyDown ''Enter'' False]"]
    d loaded_page0
  show ?thesis by blast
qed

section \<open>Failed exchanges\<close>

text \<open>
  C8.  When \<^verbatim>\<open>fetch\<close> rejects or the response has a status outside 200 to 299,
  \<^verbatim>\<open>fetchAnswer\<close> throws; the error is appended to the console and to nothing else;
  the message list is the old one without the typing placeholder, followed by one notice
  with the fixed text; the history is unchanged; one timer is added, due 5000 ms from
  now, and when it runs the notice is gone and the rest of the list is as before.  A
  timer does not run before it is due.
\<close>

theorem failure_notice:
  "failedExchange out \<Longrightarrow> list_all (\<lambda>e. ref e < next_ref s) (chatMessages s) \<Longrightarrow>
     (\<exists>e. fetchAnswer_settle out = Inl e \<and>
          console (snd (handleFormSubmit_resume q out s)) = console s @ [e]) \<and>
     chatMessages (snd (handleFormSubmit_resume q out s)) =
       chatMessages (TypingIndicator_remove s) @
         [\<lparr>ref = next_ref s, className = ''error-message'', el_id = [],
           inner = TextContent
             ''Failed to connect to the server. Please make sure the backend is running.''\<rparr>] \<and>
     conversationHistory (snd (handleFormSubmit_resume q out s)) = conversationHistory s \<and>
     timers (snd (handleFormSubmit_resume q out s)) =
       timers s @ [(now s + 5000, RemoveElement (next_ref s))] \<and>
     chatMessages (snd (run_callback (RemoveElement (next_ref s))
                          (snd (handleFormSubmit_resume q out s)))) =
       chatMessages (TypingIndicator_remove s) \<and>
     (\<forall>u i. i < length (timers u) \<and> now u < fst (timers u ! i) \<longrightarrow> step (Fire i) u = u)"
proof -
  assume f: "failedExchange out" and r: "list_all (\<lambda>e. ref e < next_ref s) (chatMessages s)"
  from failedExchange_Inl [OF f] obtain e where e: "fetchAnswer_settle out = Inl e" ..
  then have t: "tryBody q out s = (Throw e, s)"
    by (simp add: tryBody_def)
  have keep: "filter (\<lambda>x. ref x \<noteq> next_ref s) (dropTyping (chatMessages s)) =
              dropTyping (chatMessages s)"
    using r dropTyping_subset [of "chatMessages s"]
    by (fastforce simp: list_all_iff filter_id_conv)
  show ?thesis
    using e keep
    by (simp add: failure_view [OF t] ErrorMessage_create_def ErrorMessage_def
        TypingIndicator_remove_chat)
qed

theorem failure_notice_witness:
  "failedExchange (Response 500 (Some (JObj [(''error'', JStr ''bad question'')]))) \<and>
   list_all (\<lambda>e. ref e < next_ref (handleFormSubmit page0)) (chatMessages (handleFormSubmit page0)) \<and>
   fetchAnswer_settle (Response 500 (Some (JObj [(''error'', JStr ''bad question'')]))) =
     Inl (Error ''bad question'') \<and>
   console (snd (handleFormSubmit_resume ''hi''
                   (Response 500 (Some (JObj [(''error'', JStr ''bad question'')])))
                   (handleFormSubmit page0))) = [Error ''bad question''] \<and>
   timers (snd (handleFormSubmit_resume ''hi''
                  (Response 500 (Some (JObj [(''error'', JStr ''bad question'')])))
                  (handleFormSubmit page0))) =
     [(100, ScrollSettle (Some 0)), (5000, RemoveElement 3)]"
proof -
  let ?out = "Response 500 (Some (JObj [(''error'', JStr ''bad question'')]))"
  have f: "failedExchange ?out"
    by (simp add: failedExchange_def ok_def)
  have r: "list_all (\<lambda>e. ref e < next_ref (handleFormSubmit page0))
             (chatMessages (handleFormSubmit page0))"
    by (simp add: submitted0)
  have e: "fetchAnswer_settle ?out = Inl (Error ''bad question'')"
    by (simp add: fetchAnswer_settle_def ok_def)
  from failure_notice [OF f r, of "''hi''"]
  have "(\<exists>e. fetchAnswer_settle ?out = Inl e \<and>
           console (snd (handleFormSubmit_resume ''hi'' ?out (handleFormSubmit page0))) =
             console (handleFormSubmit page0) @ [e]) \<and>
        timers (snd (handleFormSubmit_resume ''hi'' ?out (handleFormSubmit page0))) =
          timers (handleFormSubmit page0) @ [(now (handleFormSubmit page0) + 5000,
            RemoveElement (next_ref (handleFormSubmit page0)))]"
    by blast
  then show ?thesis
    using f r e by (simp add: submitted0)
qed

section \<open>Escaping of message content\<close>

declare readFragment.simps [simp del]

lemma escaped_char:
  "replaceNewlines (escapeChar c) @ r =
     (if c = LF then ''<br>'' @ r
      else if c = CHR ''&'' then ''&amp;'' @ r
      else if c = NBSP then ''&nbsp;'' @ r
      else if c = CHR ''<'' then ''&lt;'' @ r
      else if c = CHR ''>'' then ''&gt;'' @ r
      else c # r)"
  by (simp add: replaceNewlines_def escapeChar_def LF_def NBSP_def)

lemma readFragment_char:
  "readFragment (replaceNewlines (escapeChar c) @ r) = map_option ((#) (shown c)) (readFragment r)"
  by (subst readFragment.simps) (simp add: escaped_char shown_def LF_def NBSP_def)

lemma replaceNewlines_append:
  "replaceNewlines (a @ b) = replaceNewlines a @ replaceNewlines b"
  by (simp add: replaceNewlines_def)

lemma readFragment_escaped:
  "readFragment (replaceNewlines (serializeText t)) = Some (map shown t)"
proof (induction t)
  case Nil
  show ?case
    by (subst readFragment.simps) (simp add: replaceNewlines_def serializeText_def)
next
  case (Cons c t)
  have "replaceNewlines (serializeText (c # t)) =
        replaceNewlines (escapeChar c) @ replaceNewlines (serializeText t)"
    by (simp add: serializeText_def replaceNewlines_append)
  with Cons show ?case
    by (simp add: readFragment_char)
qed

lemma escaped_Nil: "replaceNewlines (serializeText []) = []"
  by (simp add: replaceNewlines_def serializeText_def)

text \<open>
  C7, as the claim states it, fails.  An answer that is an object with a member of its
  own called \<^verbatim>\<open>toString\<close> cannot be converted to text: \<^verbatim>\<open>escapeHtml\<close> throws a
  \<^verbatim>\<open>TypeError\<close>, \<^verbatim>\<open>getElement\<close> hands out no element and \<^verbatim>\<open>addMessage\<close> leaves
  the state as it was.  A response with such an answer ends with the error notice and
  without an assistant message: the content is rejected.
\<close>

theorem unconvertible_content_counterexample:
  "getElement \<lparr>content = Some unconvertible, sender = ''ai'', createdAt = 0\<rparr> 1 = Inl TypeError \<and>
   addMessage \<lparr>content = Some unconvertible, sender = ''ai'', createdAt = 0\<rparr> page0 =
     (Throw TypeError, page0) \<and>
   map inner
     (chatMessages
        (step (Settle 0 (Response 200 (Some (JObj [(''answer'', unconvertible)]))))
           (handleFormSubmit page0))) =
     [MessageHtml ''You'' ''hi'',
      TextContent ''Failed to connect to the server. Please make sure the backend is running.'']"
proof -
  let ?out = "Response 200 (Some (JObj [(''answer'', unconvertible)]))"
  let ?u = "(handleFormSubmit page0)\<lparr>pending := []\<rparr>"
  have t: "textOf (Some unconvertible) = Inl TypeError"
    by (simp add: unconvertible_def)
  have b: "tryBody ''hi'' ?out ?u = (Throw TypeError, ?u)"
    by (simp add: tryBody_cases fetchAnswer_settle_def ok_def t)
  have st: "step (Settle 0 ?out) (handleFormSubmit page0) =
            snd (handleFormSubmit_resume ''hi'' ?out ?u)"
    by (simp add: step_Settle submitted0 dropAt_def del: step.simps)
  show ?thesis
    unfolding st
    by (simp add: failure_view [OF b] TypingIndicator_remove_chat submitted0 addMessage_cases t
        getElement_def escapeHtml_def ErrorMessage_create_def ErrorMessage_def)
qed

text \<open>
  C7, amended.  When the content of a message is a string, \<^verbatim>\<open>addMessage\<close> completes
  and appends one element whose content hole holds the escaped string, and a browser
  reads that markup as nothing but the characters of the string, one by one, with a line
  break in place of each line feed: no tag and no character reference of the content is
  interpreted, and no string is rejected.  Content that is \<^verbatim>\<open>undefined\<close> or
  \<^verbatim>\<open>null\<close> is rendered as the empty text, and any other content is rendered in the
  same way from the text it converts to.  When the conversion throws, \<^verbatim>\<open>addMessage\<close>
  throws the same error and leaves the state as it was.
\<close>

theorem content_rendered_as_text:
  "(\<forall>c. content m = Some (JStr c) \<longrightarrow>
      fst (addMessage m s) = Normal \<and>
      chatMessages (snd (addMessage m s)) =
        chatMessages s @
          [\<lparr>ref = next_ref s, className = ''message message-'' @ sender m, el_id = [],
            inner = MessageHtml (getSenderLabel m) (replaceNewlines (serializeText c))\<rparr>] \<and>
      readFragment (replaceNewlines (serializeText c)) = Some (map shown c)) \<and>
   (content m = None \<or> content m = Some JNull \<longrightarrow>
      fst (addMessage m s) = Normal \<and>
      chatMessages (snd (addMessage m s)) =
        chatMessages s @
          [\<lparr>ref = next_ref s, className = ''message message-'' @ sender m, el_id = [],
            inner = MessageHtml (getSenderLabel m) []\<rparr>]) \<and>
   (\<forall>t. textOf (content m) = Inr t \<longrightarrow>
      fst (addMessage m s) = Normal \<and>
      chatMessages (snd (addMessage m s)) =
        chatMessages s @
          [\<lparr>ref = next_ref s, className = ''message message-'' @ sender m, el_id = [],
            inner = MessageHtml (getSenderLabel m) (replaceNewlines (serializeText t))\<rparr>] \<and>
      readFragment (replaceNewlines (serializeText t)) = Some (map shown t)) \<and>
   (\<forall>e. textOf (content m) = Inl e \<longrightarrow> addMessage m s = (Throw e, s))"
  by (auto simp: addMessage_cases messageElement_def getSenderLabel_def readFragment_escaped
      escaped_Nil)

theorem content_rendered_as_text_witness:
  "content \<lparr>content = Some (JStr markup0), sender = ''user'', createdAt = 0\<rparr> =
     Some (JStr markup0) \<and>
   fst (addMessage \<lparr>content = Some (JStr markup0), sender = ''user'', createdAt = 0\<rparr> page0) =
     Normal \<and>
   map inner
     (chatMessages
        (snd (addMessage \<lparr>content = Some (JStr markup0), sender = ''user'', createdAt = 0\<rparr>
                page0))) =
     [MessageHtml ''You'' ''&lt;b&gt;<br>&amp;''] \<and>
   readFragment ''&lt;b&gt;<br>&amp;'' =
     Some [Chr (CHR ''<''), Chr (CHR ''b''), Chr (CHR ''>''), Break, Chr (CHR ''&'')]"
proof -
  let ?m = "\<lparr>content = Some (JStr markup0), sender = ''user'', createdAt = 0\<rparr>"
  have c: "content ?m = Some (JStr markup0)"
    by simp
  have h: "replaceNewlines (serializeText markup0) = ''&lt;b&gt;<br>&amp;''"
    by (simp add: markup0_def replaceNewlines_def serializeText_def escapeChar_def LF_def NBSP_def)
  have v: "map shown markup0 =
           [Chr (CHR ''<''), Chr (CHR ''b''), Chr (CHR ''>''), Break, Chr (CHR ''&'')]"
    by (simp add: markup0_def shown_def LF_def)
  from content_rendered_as_text [of ?m page0] c
  have "fst (addMessage ?m page0) = Normal \<and>
        chatMessages (snd (addMessage ?m page0)) =
          chatMessages page0 @
            [\<lparr>ref = next_ref page0, className = ''message message-'' @ sender ?m, el_id = [],
              inner = MessageHtml (getSenderLabel ?m) (replaceNewlines (serializeText markup0))\<rparr>] \<and>
        readFragment (replaceNewlines (serializeText markup0)) = Some (map shown markup0)"
    by blast
  then show ?thesis
    by (simp add: h v [symmetric] getSenderLabel_def)
qed

section \<open>Successful exchanges\<close>

lemma handleFormSubmit_history:
  "handleFormSubmit (u\<lparr>conversationHistory := h\<rparr>) = (handleFormSubmit u)\<lparr>conversationHistory := h\<rparr>"
  by (simp add: handleFormSubmit_eq Let_def setLoadingState_def clearInput_def
      appended_def scrollToBottom_def hideWelcomeScreen_def split: option.splits)

lemma finallyBlock_history:
  "finallyBlock (u\<lparr>conversationHistory := h\<rparr>) = (finallyBlock u)\<lparr>conversationHistory := h\<rparr>"
  by (simp add: finallyBlock_def TypingIndicator_remove_def getElementById_def setLoadingState_def
      split: option.splits)

lemma handleError_history:
  "handleError e (u\<lparr>conversationHistory := h\<rparr>) = (handleError e u)\<lparr>conversationHistory := h\<rparr>"
  by (simp add: handleError_def ErrorMessage_display_def Let_def)

lemma beforeFinally_history:
  "\<exists>new. \<forall>h. beforeFinally q out (u\<lparr>conversationHistory := h\<rparr>) =
     (beforeFinally q out u)\<lparr>conversationHistory := h @ new\<rparr>"
proof (cases "fst (tryBody q out u)")
  case Normal
  then obtain a el where a: "\<forall>h. tryBody q out (u\<lparr>conversationHistory := h\<rparr>) =
    (Normal, (appended el u)
                  \<lparr>conversationHistory := h @ [\<lparr>question = q, answer = a, timestamp = now u\<rparr>]\<rparr>)"
    and b: "tryBody q out u =
    (Normal, (appended el u)
                  \<lparr>conversationHistory :=
                     conversationHistory u @ [\<lparr>question = q, answer = a, timestamp = now u\<rparr>]\<rparr>)"
    by (auto simp: tryBody_cases appended_def scrollToBottom_def split: sum.splits)
  show ?thesis
    by (rule exI [of _ "[\<lparr>question = q, answer = a, timestamp = now u\<rparr>]"])
       (simp add: beforeFinally_def a b)
next
  case (Throw e)
  then have "\<forall>h. tryBody q out (u\<lparr>conversationHistory := h\<rparr>) = (Throw e, u\<lparr>conversationHistory := h\<rparr>)"
    and "tryBody q out u = (Throw e, u)"
    by (auto simp: tryBody_cases split: sum.splits)
  then show ?thesis
    by (intro exI [of _ "[]"]) (simp add: beforeFinally_def handleError_history)
qed

lemma history_pending_swap:
  "u\<lparr>conversationHistory := h, pending := d\<rparr> = u\<lparr>pending := d, conversationHistory := h\<rparr>"
  by (cases u) simp

lemma history_timers_swap:
  "u\<lparr>timers := d, conversationHistory := h\<rparr> = u\<lparr>conversationHistory := h, timers := d\<rparr>"
  by (cases u) simp

lemma report_callback_history:
  "report (run_callback cb (v\<lparr>conversationHistory := h\<rparr>)) =
     (report (run_callback cb v))\<lparr>conversationHistory := h\<rparr>"
  by (cases "(cb, v)" rule: run_callback.cases) (auto simp: report_def)

lemma step_history:
  "\<exists>new. \<forall>h. step ev (u\<lparr>conversationHistory := h\<rparr>) =
     (step ev u)\<lparr>conversationHistory := h @ new\<rparr>"
proof (cases ev)
  case (Settle i out)
  show ?thesis
  proof (cases "i < length (pending u)")
    case True
    let ?v = "u\<lparr>pending := dropAt i (pending u)\<rparr>"
    from beforeFinally_history [of "pending u ! i" out ?v] obtain new where
      "\<forall>h. beforeFinally (pending u ! i) out (?v\<lparr>conversationHistory := h\<rparr>) =
           (beforeFinally (pending u ! i) out ?v)\<lparr>conversationHistory := h @ new\<rparr>" ..
    then have "\<forall>h. beforeFinally (pending u ! i) out
                   (u\<lparr>conversationHistory := h, pending := dropAt i (pending u)\<rparr>) =
           (beforeFinally (pending u ! i) out ?v)\<lparr>conversationHistory := h @ new\<rparr>"
      by (simp add: history_pending_swap)
    then show ?thesis
      using True Settle
      by (intro exI [of _ new]) (simp add: resume_eq report_def finallyBlock_history)
  next
    case False
    then show ?thesis
      using Settle by (intro exI [of _ "[]"]) simp
  qed
next
  case (Fire i)
  then show ?thesis
    by (intro exI [of _ "[]"])
       (auto simp: history_timers_swap [symmetric] report_callback_history)
qed (rule exI [of _ "[]"], simp add: handleFormSubmit_history handleKeyDown_def autoResizeInput_def)+

lemma step_append_only: "\<exists>new. conversationHistory (step ev u) = conversationHistory u @ new"
proof -
  from step_history [of ev u] obtain new where
    n: "\<forall>h. step ev (u\<lparr>conversationHistory := h\<rparr>) = (step ev u)\<lparr>conversationHistory := h @ new\<rparr>" ..
  from n have "step ev (u\<lparr>conversationHistory := conversationHistory u\<rparr>) =
      (step ev u)\<lparr>conversationHistory := conversationHistory u @ new\<rparr>" by blast
  then have "step ev u = (step ev u)\<lparr>conversationHistory := conversationHistory u @ new\<rparr>" by simp
  then have "conversationHistory (step ev u) =
     conversationHistory ((step ev u)\<lparr>conversationHistory := conversationHistory u @ new\<rparr>)"
    by simp
  then show ?thesis by simp
qed

text \<open>
  C9.  When the response has a 2xx status and its body is an object whose \<^verbatim>\<open>answer\<close>
  is the string \<open>x\<close>, the message list is the old one without the typing placeholder,
  followed by one assistant message whose content hole holds \<open>x\<close>, escaped, which a
  browser reads as exactly the characters of \<open>x\<close>; the history is the old one followed
  by one entry with the question, the answer \<open>x\<close> and the time; nothing is logged to the
  console.  The history is append-only: every event leaves the old history as a prefix
  of the new one.  And it is never read: run from a state with another history, an event
  appends the same entries and leaves the same state otherwise.
\<close>

theorem success_rendered_and_logged:
  "ok st \<Longrightarrow> getProp data ''answer'' = Inr (Some (JStr x)) \<Longrightarrow>
     chatMessages (snd (handleFormSubmit_resume q (Response st (Some data)) s)) =
       chatMessages (TypingIndicator_remove s) @
         [\<lparr>ref = next_ref s, className = ''message message-ai'', el_id = [],
           inner = MessageHtml ''AI CHAT BOT'' (replaceNewlines (serializeText x))\<rparr>] \<and>
     readFragment (replaceNewlines (serializeText x)) = Some (map shown x) \<and>
     conversationHistory (snd (handleFormSubmit_resume q (Response st (Some data)) s)) =
       conversationHistory s @ [\<lparr>question = q, answer = Some (JStr x), timestamp = now s\<rparr>] \<and>
     console (snd (handleFormSubmit_resume q (Response st (Some data)) s)) = console s \<and>
     (\<forall>ev u. \<exists>new. conversationHistory (step ev u) = conversationHistory u @ new) \<and>
     (\<forall>ev u. \<exists>new. \<forall>h. step ev (u\<lparr>conversationHistory := h\<rparr>) =
                           (step ev u)\<lparr>conversationHistory := h @ new\<rparr>)"
proof -
  assume k: "ok st" and g: "getProp data ''answer'' = Inr (Some (JStr x))"
  have t: "textOf (Some (JStr x)) = Inr x"
    by simp
  have "chatMessages (snd (handleFormSubmit_resume q (Response st (Some data)) s)) =
       chatMessages (TypingIndicator_remove s) @
         [\<lparr>ref = next_ref s, className = ''message message-ai'', el_id = [],
           inner = MessageHtml ''AI CHAT BOT'' (replaceNewlines (serializeText x))\<rparr>] \<and>
     readFragment (replaceNewlines (serializeText x)) = Some (map shown x) \<and>
     conversationHistory (snd (handleFormSubmit_resume q (Response st (Some data)) s)) =
       conversationHistory s @ [\<lparr>question = q, answer = Some (JStr x), timestamp = now s\<rparr>] \<and>
     console (snd (handleFormSubmit_resume q (Response st (Some data)) s)) = console s"
    by (simp add: success_view [OF ok_settle(1) [OF k] g t] messageElement_def
        readFragment_escaped)
  with step_append_only step_history show ?thesis
    by blast
qed

theorem success_rendered_and_logged_witness:
  "ok 200 \<and> getProp (JObj [(''answer'', JStr ''4'')]) ''answer'' = Inr (Some (JStr ''4'')) \<and>
   map inner
     (chatMessages
        (snd (handleFormSubmit_resume ''hi'' (Response 200 (Some (JObj [(''answer'', JStr ''4'')])))
                (handleFormSubmit page0)))) =
     [MessageHtml ''You'' ''hi'', MessageHtml ''AI CHAT BOT'' ''4''] \<and>
   readFragment ''4'' = Some [Chr (CHR ''4'')] \<and>
   conversationHistory
     (snd (handleFormSubmit_resume ''hi'' (Response 200 (Some (JObj [(''answer'', JStr ''4'')])))
             (handleFormSubmit page0))) =
     [\<lparr>question = ''hi'', answer = Some (JStr ''4''), timestamp = 0\<rparr>] \<and>
   console
     (snd (handleFormSubmit_resume ''hi'' (Response 200 (Some (JObj [(''answer'', JStr ''4'')])))
             (handleFormSubmit page0))) = []"
proof -
  let ?out = "Response 200 (Some (JObj [(''answer'', JStr ''4'')]))"
  let ?s = "handleFormSubmit page0"
  have k: "ok 200"
    by (simp add: ok_def)
  have g: "getProp (JObj [(''answer'', JStr ''4'')]) ''answer'' = Inr (Some (JStr ''4''))"
    by simp
  have h: "replaceNewlines (serializeText ''4'') = ''4''"
    by (simp add: replaceNewlines_def serializeText_def escapeChar_def LF_def NBSP_def)
  from success_rendered_and_logged [OF k g, of "''hi''" ?s]
  have "chatMessages (snd (handleFormSubmit_resume ''hi'' ?out ?s)) =
          chatMessages (TypingIndicator_remove ?s) @
            [\<lparr>ref = next_ref ?s, className = ''message message-ai'', el_id = [],
              inner = MessageHtml ''AI CHAT BOT'' (replaceNewlines (serializeText ''4''))\<rparr>] \<and>
        readFragment (replaceNewlines (serializeText ''4'')) = Some (map shown ''4'') \<and>
        conversationHistory (snd (handleFormSubmit_resume ''hi'' ?out ?s)) =
          conversationHistory ?s @
            [\<lparr>question = ''hi'', answer = Some (JStr ''4''), timestamp = now ?s\<rparr>] \<and>
        console (snd (handleFormSubmit_resume ''hi'' ?out ?s)) = console ?s"
    by blast
  then show ?thesis
    using k g by (simp add: h shown_def LF_def TypingIndicator_remove_chat submitted0)
qed

section \<open>An error while rendering\<close>

text \<open>
  C10.  When \<^verbatim>\<open>fetchAnswer\<close> returns a body and \<^verbatim>\<open>handleResponse\<close> throws on it
  (reading the answer of a \<^verbatim>\<open>null\<close> body, or rendering an answer that cannot be
  converted to text), no assistant message is rendered and the continuation does exactly
  what it does when \<^verbatim>\<open>fetch\<close> rejects with that error:
  the last element of the message list is the notice with the fixed text, and the
  history is unchanged.  More generally, the history is unchanged whenever the body of
  the \<^verbatim>\<open>try\<close> throws.
\<close>

theorem render_failure_like_network_failure:
  "fetchAnswer_settle out = Inr data \<Longrightarrow> fst (handleResponse q data s) = Throw e \<Longrightarrow>
     handleFormSubmit_resume q out s = handleFormSubmit_resume q (Rejected e) s \<and>
     last (chatMessages (snd (handleFormSubmit_resume q out s))) =
       \<lparr>ref = next_ref s, className = ''error-message'', el_id = [],
        inner = TextContent
          ''Failed to connect to the server. Please make sure the backend is running.''\<rparr> \<and>
     conversationHistory (snd (handleFormSubmit_resume q out s)) = conversationHistory s \<and>
     (\<forall>out' e'. fst (tryBody q out' s) = Throw e' \<longrightarrow>
        conversationHistory (snd (handleFormSubmit_resume q out' s)) = conversationHistory s)"
proof -
  assume d: "fetchAnswer_settle out = Inr data" and t: "fst (handleResponse q data s) = Throw e"
  from d t have "fst (tryBody q out s) = Throw e"
    by (simp add: tryBody_def)
  then have tb: "tryBody q out s = (Throw e, snd (tryBody q out s))"
    by (metis prod.collapse)
  have all: "\<forall>out' e'. fst (tryBody q out' s) = Throw e' \<longrightarrow>
        conversationHistory (snd (handleFormSubmit_resume q out' s)) = conversationHistory s"
  proof (intro allI impI)
    fix out' e'
    assume "fst (tryBody q out' s) = Throw e'"
    then have "tryBody q out' s = (Throw e', snd (tryBody q out' s))"
      by (metis prod.collapse)
    then show "conversationHistory (snd (handleFormSubmit_resume q out' s)) = conversationHistory s"
      by (simp add: resume_Throw)
  qed
  have same: "handleFormSubmit_resume q out s = handleFormSubmit_resume q (Rejected e) s"
    by (simp add: resume_Throw [OF tb] resume_Throw [OF tryBody_Rejected])
  have notice: "last (chatMessages (snd (handleFormSubmit_resume q out s))) =
       \<lparr>ref = next_ref s, className = ''error-message'', el_id = [],
        inner = TextContent
          ''Failed to connect to the server. Please make sure the backend is running.''\<rparr>"
    by (simp add: failure_view(1) [OF tb] ErrorMessage_create_def ErrorMessage_def)
  have log: "conversationHistory (snd (handleFormSubmit_resume q out s)) = conversationHistory s"
    by (simp add: failure_view(3) [OF tb])
  from same notice log all show ?thesis
    by blast
qed

theorem render_failure_like_network_failure_witness:
  "fetchAnswer_settle (Response 200 (Some (JObj [(''answer'', unconvertible)]))) =
     Inr (JObj [(''answer'', unconvertible)]) \<and>
   fst (handleResponse ''hi'' (JObj [(''answer'', unconvertible)]) (handleFormSubmit page0)) =
     Throw TypeError \<and>
   handleFormSubmit_resume ''hi'' (Response 200 (Some (JObj [(''answer'', unconvertible)])))
       (handleFormSubmit page0) =
     handleFormSubmit_resume ''hi'' (Rejected TypeError) (handleFormSubmit page0) \<and>
   conversationHistory
     (snd (handleFormSubmit_resume ''hi'' (Response 200 (Some (JObj [(''answer'', unconvertible)])))
             (handleFormSubmit page0))) =
     conversationHistory (handleFormSubmit page0) \<and>
   fetchAnswer_settle (Response 200 (Some JNull)) = Inr JNull \<and>
   fst (handleResponse ''hi'' JNull (handleFormSubmit page0)) = Throw TypeError \<and>
   handleFormSubmit_resume ''hi'' (Response 200 (Some JNull)) (handleFormSubmit page0) =
     handleFormSubmit_resume ''hi'' (Rejected TypeError) (handleFormSubmit page0)"
proof -
  have a: "fetchAnswer_settle (Response 200 (Some (JObj [(''answer'', unconvertible)]))) =
           Inr (JObj [(''answer'', unconvertible)])"
    by (simp add: fetchAnswer_settle_def ok_def)
  have b: "fst (handleResponse ''hi'' (JObj [(''answer'', unconvertible)]) (handleFormSubmit page0)) =
           Throw TypeError"
    by (simp add: handleResponse_def addMessage_cases ChatMessage_def unconvertible_def)
  have a': "fetchAnswer_settle (Response 200 (Some JNull)) = Inr JNull"
    by (simp add: fetchAnswer_settle_def ok_def)
  have b': "fst (handleResponse ''hi'' JNull (handleFormSubmit page0)) = Throw TypeError"
    by (simp add: handleResponse_def)
  from render_failure_like_network_failure [OF a b] render_failure_like_network_failure [OF a' b']
  show ?thesis
    using a b a' b' by blast
qed

section \<open>Malformed bodies of a successful response\<close>

text \<open>
  C3, as the claim states it, fails.  A response with status 200 and the body \<open>{}\<close>,
  which has no \<^verbatim>\<open>answer\<close>, is no failure of \<^verbatim>\<open>fetchAnswer\<close>: an assistant message
  with empty content is rendered, nothing is logged to the console, and an entry with
  an undefined answer is appended to the history.
\<close>

theorem malformed_success_body_counterexample:
  "fetchAnswer_settle (Response 200 (Some (JObj []))) = Inr (JObj []) \<and>
   map inner (chatMessages (step (Settle 0 (Response 200 (Some (JObj [])))) (handleFormSubmit page0))) =
     [MessageHtml ''You'' ''hi'', MessageHtml ''AI CHAT BOT'' []] \<and>
   console (step (Settle 0 (Response 200 (Some (JObj [])))) (handleFormSubmit page0)) = [] \<and>
   conversationHistory (step (Settle 0 (Response 200 (Some (JObj [])))) (handleFormSubmit page0)) =
     [\<lparr>question = ''hi'', answer = None, timestamp = 0\<rparr>]"
proof -
  let ?out = "Response 200 (Some (JObj []))"
  let ?u = "(handleFormSubmit page0)\<lparr>pending := []\<rparr>"
  have a: "fetchAnswer_settle ?out = Inr (JObj [])"
    by (simp add: fetchAnswer_settle_def ok_def)
  have b: "getProp (JObj []) ''answer'' = Inr None"
    by simp
  have c: "textOf None = Inr []"
    by simp
  have st: "step (Settle 0 ?out) (handleFormSubmit page0) =
            snd (handleFormSubmit_resume ''hi'' ?out ?u)"
    by (simp add: step_Settle submitted0 dropAt_def del: step.simps)
  show ?thesis
    unfolding st
    by (simp add: a success_view [OF a b c] TypingIndicator_remove_chat
        submitted0 messageElement_def replaceNewlines_def serializeText_def)
qed

text \<open>
  C3, amended.  For a response with a 2xx status: when the body is not JSON,
  \<^verbatim>\<open>fetchAnswer\<close> throws and the exchange ends exactly as when \<^verbatim>\<open>fetch\<close> rejects with
  a \<^verbatim>\<open>SyntaxError\<close>; when the body is \<^verbatim>\<open>null\<close>, \<^verbatim>\<open>fetchAnswer\<close> returns it and the
  exchange ends exactly as when \<^verbatim>\<open>fetch\<close> rejects with a \<^verbatim>\<open>TypeError\<close>; when the body
  is any other value without an \<^verbatim>\<open>answer\<close>, \<^verbatim>\<open>fetchAnswer\<close> returns it, one assistant
  message with empty content is rendered, an entry with an undefined answer is appended
  to the history, and nothing is logged to the console.
\<close>

theorem malformed_success_body:
  "ok st \<Longrightarrow>
     fetchAnswer_settle (Response st None) = Inl SyntaxError \<and>
     handleFormSubmit_resume q (Response st None) s =
       handleFormSubmit_resume q (Rejected SyntaxError) s \<and>
     fetchAnswer_settle (Response st (Some JNull)) = Inr JNull \<and>
     handleFormSubmit_resume q (Response st (Some JNull)) s =
       handleFormSubmit_resume q (Rejected TypeError) s \<and>
     (\<forall>data. getProp data ''answer'' = Inr None \<longrightarrow>
        fetchAnswer_settle (Response st (Some data)) = Inr data \<and>
        chatMessages (snd (handleFormSubmit_resume q (Response st (Some data)) s)) =
          chatMessages (TypingIndicator_remove s) @
            [\<lparr>ref = next_ref s, className = ''message message-ai'', el_id = [],
              inner = MessageHtml ''AI CHAT BOT'' []\<rparr>] \<and>
        conversationHistory (snd (handleFormSubmit_resume q (Response st (Some data)) s)) =
          conversationHistory s @ [\<lparr>question = q, answer = None, timestamp = now s\<rparr>] \<and>
        console (snd (handleFormSubmit_resume q (Response st (Some data)) s)) = console s)"
proof -
  assume k: "ok st"
  have a: "tryBody q (Response st None) s = (Throw SyntaxError, s)"
    by (simp add: tryBody_def ok_settle [OF k])
  have b: "tryBody q (Response st (Some JNull)) s = (Throw TypeError, s)"
    by (simp add: tryBody_cases ok_settle [OF k])
  have c: "\<forall>data. getProp data ''answer'' = Inr None \<longrightarrow>
        fetchAnswer_settle (Response st (Some data)) = Inr data \<and>
        chatMessages (snd (handleFormSubmit_resume q (Response st (Some data)) s)) =
          chatMessages (TypingIndicator_remove s) @
            [\<lparr>ref = next_ref s, className = ''message message-ai'', el_id = [],
              inner = MessageHtml ''AI CHAT BOT'' []\<rparr>] \<and>
        conversationHistory (snd (handleFormSubmit_resume q (Response st (Some data)) s)) =
          conversationHistory s @ [\<lparr>question = q, answer = None, timestamp = now s\<rparr>] \<and>
        console (snd (handleFormSubmit_resume q (Response st (Some data)) s)) = console s"
    by (simp add: success_view [OF ok_settle(1) [OF k] _ textOf.simps(1)] ok_settle [OF k]
        messageElement_def replaceNewlines_def serializeText_def)
  show ?thesis
    using c
    by (simp add: ok_settle [OF k] resume_Throw [OF a] resume_Throw [OF b] resume_Rejected)
qed

theorem malformed_success_body_witness:
  "ok 200 \<and>
   handleFormSubmit_resume ''hi'' (Response 200 None) page0 =
     handleFormSubmit_resume ''hi'' (Rejected SyntaxError) page0 \<and>
   conversationHistory
     (snd (handleFormSubmit_resume ''hi'' (Response 200 (Some (JObj []))) page0)) =
     [\<lparr>question = ''hi'', answer = None, timestamp = 0\<rparr>]"
proof -
  have k: "ok 200"
    by (simp add: ok_def)
  have g: "getProp (JObj []) ''answer'' = Inr None"
    by simp
  from malformed_success_body [OF k, of "''hi''" page0] g k show ?thesis
    by simp
qed

section \<open>Timers\<close>

text \<open>
  C4, as the claim states it, fails.  On a page without an element of class
  \<^verbatim>\<open>chat-main\<close>, a submission sets a scroll timer that holds \<^verbatim>\<open>null\<close>; when the
  timer runs, 100 ms later, its callback throws a \<^verbatim>\<open>TypeError\<close> that nothing catches.
\<close>

theorem scroll_timer_counterexample:
  "timers (handleFormSubmit bare0) = [(100, ScrollSettle None)] \<and>
   uncaught (run [ClickSubmit, Advance 100, Fire 0] bare0) = [TypeError]"
proof -
  have t: "trim (input_value bare0) \<noteq> []"
    by simp
  have d: "\<not> btn_disabled bare0"
    by (simp add: bare0_def)
  have a: "timers (handleFormSubmit bare0) = [(100, ScrollSettle None)]"
    by (simp add: handleFormSubmit_view [OF t])
  show ?thesis
    using a d by (simp add: report_def dropAt_def)
qed

text \<open>
  C4, amended.  The callback that removes an error notice never throws, in whatever
  state it runs, and changes nothing when the notice is no longer in the message list.
  The scroll callback does not throw, and leaves the message list alone, in whatever
  state it runs, when an element of class \<^verbatim>\<open>chat-main\<close> was found at the time the
  timer was set.
\<close>

theorem timers_tolerate_detached_target:
  "fst (run_callback (snd (last (timers (ErrorMessage_display em s)))) u) = Normal \<and>
   (list_all (\<lambda>e. ref e \<noteq> next_ref s) (chatMessages u) \<longrightarrow>
      snd (run_callback (snd (last (timers (ErrorMessage_display em s)))) u) = u) \<and>
   (chatMain s \<noteq> None \<longrightarrow>
      fst (run_callback (snd (last (timers (scrollToBottom s)))) u) = Normal \<and>
      chatMessages (snd (run_callback (snd (last (timers (scrollToBottom s)))) u)) =
        chatMessages u)"
  by (auto simp: ErrorMessage_display_def ErrorMessage_create_def Let_def scrollToBottom_def
      list_all_iff filter_id_conv)

theorem timers_tolerate_detached_target_witness:
  "chatMain page0 \<noteq> None \<and> list_all (\<lambda>e. ref e \<noteq> next_ref page0) (chatMessages page0) \<and>
   fst (run_callback (snd (last (timers (scrollToBottom page0)))) (page0\<lparr>chatMain := None\<rparr>)) =
     Normal \<and>
   snd (run_callback (snd (last (timers (ErrorMessage_display (ErrorMessage ''x'') page0)))) page0) =
     page0"
proof -
  have a: "chatMain page0 \<noteq> None"
    by simp
  have b: "list_all (\<lambda>e. ref e \<noteq> next_ref page0) (chatMessages page0)"
    by simp
  from timers_tolerate_detached_target [of "ErrorMessage ''x''" page0 "page0\<lparr>chatMain := None\<rparr>"]
    timers_tolerate_detached_target [of "ErrorMessage ''x''" page0 page0] a b
  show ?thesis by blast
qed

end
